theory Spec2Isabelle
  imports Main "HOL-Library.AList"
begin

section \<open>JavaScript values and numbers\<close>

text \<open>
  The runtime in \<^verbatim>\<open>src/runtime.ts\<close> handles values of type \<^verbatim>\<open>unknown\<close>: the event, the
  handler's result, whatever the handler throws.  They are modelled by \<open>jsval\<close>.
  An object is the list of its own enumerable properties in enumeration order; \<open>JError\<close>
  is an instance of \<^verbatim>\<open>Error\<close>, a \<open>js_error\<close> with its \<^verbatim>\<open>name\<close>, \<^verbatim>\<open>message\<close> and optional \<^verbatim>\<open>stack\<close>
  (typed \<^verbatim>\<open>string\<close>, \<^verbatim>\<open>string\<close> and \<^verbatim>\<open>string | undefined\<close> by the language's library).
  Numbers inside values are restricted to integers; a \<open>number\<close> that the runtime itself
  computes with is an integer or \<^verbatim>\<open>NaN\<close>.
\<close>

record js_error =
  err_name :: string
  err_message :: string
  err_stack :: "string option"

datatype jsval =
    JUndefined
  | JNull
  | JBool bool
  | JNum int
  | JStr string
  | JArr "jsval list"
  | JObj "(string \<times> jsval) list"
  | JError js_error

datatype number = Finite int | NaN

text \<open>\<^verbatim>\<open>a - b\<close>, \<^verbatim>\<open>Math.max(a, b)\<close> and \<^verbatim>\<open>a < b\<close> on numbers: \<^verbatim>\<open>NaN\<close> is contagious and
  compares false with everything.\<close>

fun js_minus :: "number \<Rightarrow> number \<Rightarrow> number" where
  "js_minus (Finite a) (Finite b) = Finite (a - b)"
| "js_minus _ _ = NaN"

fun Math_max :: "number \<Rightarrow> number \<Rightarrow> number" where
  "Math_max (Finite a) (Finite b) = Finite (max a b)"
| "Math_max _ _ = NaN"

fun js_less :: "number \<Rightarrow> number \<Rightarrow> bool" where
  "js_less (Finite a) (Finite b) = (a < b)"
| "js_less _ _ = False"

text \<open>Truthiness of a \<^verbatim>\<open>string | undefined\<close> or \<^verbatim>\<open>string | null\<close>: absent and empty are falsy.\<close>

fun truthy :: "string option \<Rightarrow> bool" where
  "truthy None = False"
| "truthy (Some s) = (s \<noteq> [])"

section \<open>Strings\<close>

subsection \<open>Decimal numerals\<close>

definition digit_char :: "nat \<Rightarrow> char" where
  "digit_char d = char_of (48 + d)"

definition is_digit :: "char \<Rightarrow> bool" where
  "is_digit c = (48 \<le> (of_char c :: nat) \<and> (of_char c :: nat) \<le> 57)"

definition digit_val :: "char \<Rightarrow> nat" where
  "digit_val c = of_char c - 48"

function show_nat :: "nat \<Rightarrow> string" where
  "show_nat n = (if n < 10 then [digit_char n] else show_nat (n div 10) @ [digit_char (n mod 10)])"
  by pat_completeness auto
termination
  by (relation "measure (\<lambda>n. n)") auto

declare show_nat.simps [simp del]

text \<open>The text a template literal or \<^verbatim>\<open>String\<close> gives an integer.\<close>

definition show_int :: "int \<Rightarrow> string" where
  "show_int i = (if i < 0 then CHR ''-'' # show_nat (nat (- i)) else show_nat (nat i))"

definition read_nat :: "string \<Rightarrow> nat" where
  "read_nat s = foldl (\<lambda>acc c. 10 * acc + digit_val c) 0 s"

subsection \<open>\<^verbatim>\<open>trim\<close> and \<^verbatim>\<open>split("\n")\<close>\<close>

text \<open>White space and line terminators among the first 256 code units.\<close>

definition js_space :: "char \<Rightarrow> bool" where
  "js_space c = (c \<in> set [CHR 0x09, CHR 0x0A, CHR 0x0B, CHR 0x0C, CHR 0x0D, CHR 0x20, CHR 0xA0])"

definition trim :: "string \<Rightarrow> string" where
  "trim s = rev (dropWhile js_space (rev (dropWhile js_space s)))"

text \<open>\<^verbatim>\<open>s.split("\n")\<close>: the pieces between line feeds; the empty string has one piece.\<close>

fun split_nl :: "string \<Rightarrow> string list" where
  "split_nl [] = [[]]"
| "split_nl (c # cs) =
     (if c = CHR 0x0A then [] # split_nl cs
      else (case split_nl cs of [] \<Rightarrow> [[c]] | l # ls \<Rightarrow> (c # l) # ls))"

subsection \<open>\<^verbatim>\<open>Number(s)\<close> on a string\<close>

text \<open>
  \<^verbatim>\<open>Number\<close> trims the string; the empty string is 0; an optionally signed run of decimal
  digits is that integer.  Literals with a fraction, an exponent or a radix prefix and
  \<^verbatim>\<open>Infinity\<close> denote numbers outside \<open>number\<close>; like every other text they are read
  as \<open>NaN\<close> here.
\<close>

definition Number_js :: "string \<Rightarrow> number" where
  "Number_js s =
     (case trim s of
        [] \<Rightarrow> Finite 0
      | c # ds \<Rightarrow>
          if c = CHR ''-'' \<and> ds \<noteq> [] \<and> list_all is_digit ds then Finite (- int (read_nat ds))
          else if c = CHR ''+'' \<and> ds \<noteq> [] \<and> list_all is_digit ds then Finite (int (read_nat ds))
          else if list_all is_digit (c # ds) then Finite (int (read_nat (c # ds)))
          else NaN)"

subsection \<open>\<^verbatim>\<open>String(v)\<close>\<close>

definition join :: "string \<Rightarrow> string list \<Rightarrow> string" where
  "join sep xs = concat (case xs of [] \<Rightarrow> [] | y # ys \<Rightarrow> y # map (\<lambda>z. sep @ z) ys)"

fun String_js :: "jsval \<Rightarrow> string" where
  "String_js JUndefined = ''undefined''"
| "String_js JNull = ''null''"
| "String_js (JBool b) = (if b then ''true'' else ''false'')"
| "String_js (JNum n) = show_int n"
| "String_js (JStr s) = s"
| "String_js (JArr xs) =
     join '','' (map (\<lambda>x. if x = JUndefined \<or> x = JNull then [] else String_js x) xs)"
| "String_js (JObj kvs) = ''[object Object]''"
| "String_js (JError e) =
     (if err_name e = [] then err_message e
      else if err_message e = [] then err_name e
      else err_name e @ '': '' @ err_message e)"

section \<open>Error payloads\<close>

record error_payload =
  errorType :: string
  errorMessage :: string
  stackTrace :: "string list"

text \<open>
  What the JavaScript engine decides: the stack it records for \<^verbatim>\<open>new Error(msg)\<close>, and the
  \<^verbatim>\<open>SyntaxError\<close> that \<^verbatim>\<open>JSON.parse\<close> throws for a text that is not JSON.
\<close>

record engine =
  capture_stack :: "string \<Rightarrow> string option"
  syntax_error :: "string \<Rightarrow> js_error"

definition new_Error :: "engine \<Rightarrow> string \<Rightarrow> js_error" where
  "new_Error eng msg = \<lparr> err_name = ''Error'', err_message = msg, err_stack = capture_stack eng msg \<rparr>"

text \<open>
  \<^verbatim>\<open>
  function toErrorPayload(err: unknown) {
    const e = err instanceof Error ? err : new Error(String(err));
    return {
      errorType: e.name || "Error",
      errorMessage: e.message ?? String(err),
      stackTrace: (e.stack ?? "").split("\n").map((s) => s.trim()),
    };
  }
  \<close>
  The message of an \<^verbatim>\<open>Error\<close> is a string, so \<^verbatim>\<open>e.message ?? String(err)\<close> is \<^verbatim>\<open>e.message\<close>.
\<close>

definition toErrorPayload :: "engine \<Rightarrow> jsval \<Rightarrow> error_payload" where
  "toErrorPayload eng err =
     (let e = (case err of JError x \<Rightarrow> x | _ \<Rightarrow> new_Error eng (String_js err)) in
      \<lparr> errorType = (if err_name e \<noteq> [] then err_name e else ''Error''),
        errorMessage = err_message e,
        stackTrace = map trim (split_nl (case err_stack e of Some s \<Rightarrow> s | None \<Rightarrow> [])) \<rparr>)"

section \<open>The invocation context\<close>

text \<open>
  \<open>awsRequestId\<close> is what \<^verbatim>\<open>headers.get(...)!\<close> returned: \<open>None\<close> is \<^verbatim>\<open>null\<close>, which the
  non-null assertion lets through unchecked.  \<open>getRemainingTimeInMillis\<close> takes the reading
  of \<^verbatim>\<open>Date.now()\<close> at the moment of the call.
\<close>

record Context =
  awsRequestId :: "string option"
  invokedFunctionArn :: "string option"
  deadlineMs :: number
  functionName :: "string option"
  functionVersion :: "string option"
  memoryLimitInMB :: "string option"
  logGroupName :: "string option"
  logStreamName :: "string option"
  clientContext :: jsval
  identity :: jsval
  getRemainingTimeInMillis :: "int \<Rightarrow> number"

text \<open>
  What \<^verbatim>\<open>getNext\<close> returns.  Its \<^verbatim>\<open>deadlineMs\<close>, \<^verbatim>\<open>clientContext\<close> and \<^verbatim>\<open>identity\<close> carry the
  prefix \<open>inv_\<close> here, the plain names being fields of \<open>Context\<close>.
\<close>

record invocation =
  requestId :: "string option"
  invokedArn :: "string option"
  inv_deadlineMs :: number
  inv_clientContext :: jsval
  inv_identity :: jsval
  event :: jsval

text \<open>\<^verbatim>\<open>process.env\<close>.\<close>

type_synonym environ = "(string \<times> string) list"

definition getenv :: "environ \<Rightarrow> string \<Rightarrow> string option" where
  "getenv env k = map_of env k"

definition buildContext :: "environ \<Rightarrow> invocation \<Rightarrow> Context" where
  "buildContext env base =
     \<lparr> awsRequestId = requestId base,
       invokedFunctionArn = invokedArn base,
       deadlineMs = inv_deadlineMs base,
       functionName = getenv env ''AWS_LAMBDA_FUNCTION_NAME'',
       functionVersion = getenv env ''AWS_LAMBDA_FUNCTION_VERSION'',
       memoryLimitInMB = getenv env ''AWS_LAMBDA_FUNCTION_MEMORY_SIZE'',
       logGroupName = getenv env ''AWS_LAMBDA_LOG_GROUP_NAME'',
       logStreamName = getenv env ''AWS_LAMBDA_LOG_STREAM_NAME'',
       clientContext = inv_clientContext base,
       identity = inv_identity base,
       getRemainingTimeInMillis = (\<lambda>now. Math_max (Finite 0) (js_minus (inv_deadlineMs base) (Finite now))) \<rparr>"

section \<open>\<^verbatim>\<open>JSON.stringify\<close>\<close>

text \<open>
  The serialisation of the language: inside a string the quotation mark, the backslash
  and the control characters are escaped; \<^verbatim>\<open>undefined\<close> has no serialisation (\<open>None\<close>),
  is \<^verbatim>\<open>null\<close> as an array element and is left out as a property value; an \<^verbatim>\<open>Error\<close> has
  no enumerable property of its own.  A \<open>jsval\<close> is a finite tree without \<^verbatim>\<open>BigInt\<close>, so
  the cases in which \<^verbatim>\<open>JSON.stringify\<close> throws do not arise.
\<close>

definition hex_digit :: "nat \<Rightarrow> char" where
  "hex_digit d = (if d < 10 then char_of (48 + d) else char_of (87 + d))"

definition quote_char :: "char \<Rightarrow> string" where
  "quote_char c =
     (if c = CHR 0x22 then [CHR 0x5C, CHR 0x22]
      else if c = CHR 0x5C then [CHR 0x5C, CHR 0x5C]
      else if c = CHR 0x08 then [CHR 0x5C, CHR ''b'']
      else if c = CHR 0x0C then [CHR 0x5C, CHR ''f'']
      else if c = CHR 0x0A then [CHR 0x5C, CHR ''n'']
      else if c = CHR 0x0D then [CHR 0x5C, CHR ''r'']
      else if c = CHR 0x09 then [CHR 0x5C, CHR ''t'']
      else if (of_char c :: nat) < 32
        then [CHR 0x5C, CHR ''u'', CHR ''0'', CHR ''0'',
              hex_digit (of_char c div 16), hex_digit (of_char c mod 16)]
      else [c])"

definition quote :: "string \<Rightarrow> string" where
  "quote s = CHR 0x22 # concat (map quote_char s) @ [CHR 0x22]"

fun JSON_stringify :: "jsval \<Rightarrow> string option" where
  "JSON_stringify JUndefined = None"
| "JSON_stringify JNull = Some ''null''"
| "JSON_stringify (JBool b) = Some (if b then ''true'' else ''false'')"
| "JSON_stringify (JNum n) = Some (show_int n)"
| "JSON_stringify (JStr s) = Some (quote s)"
| "JSON_stringify (JArr xs) =
     Some (''['' @ join '',''
        (map (\<lambda>x. case JSON_stringify x of None \<Rightarrow> ''null'' | Some t \<Rightarrow> t) xs) @ '']'')"
| "JSON_stringify (JObj kvs) =
     Some (''{'' @ join '',''
        (concat (map (\<lambda>kv. case JSON_stringify (snd kv) of
                              None \<Rightarrow> [] | Some t \<Rightarrow> [quote (fst kv) @ '':'' @ t]) kvs)) @ ''}'')"
| "JSON_stringify (JError e) = Some ''{}''"

text \<open>The object that \<^verbatim>\<open>toErrorPayload\<close> returns, as a value.\<close>

definition payload_value :: "error_payload \<Rightarrow> jsval" where
  "payload_value p =
     JObj [(''errorType'', JStr (errorType p)),
           (''errorMessage'', JStr (errorMessage p)),
           (''stackTrace'', JArr (map JStr (stackTrace p)))]"

section \<open>\<^verbatim>\<open>JSON.parse\<close>\<close>

text \<open>
  A recursive-descent reader of the JSON grammar.  \<open>parse_chars\<close> reads a string after its
  opening quotation mark and gives the text left over.  An escape \<^verbatim>\<open>\uXXXX\<close> beyond the
  first 256 code units and a number with a fraction or an exponent denote values outside
  \<open>jsval\<close> and are not read.  A property given twice keeps its first place and its last
  value.  The recursion of \<open>parse_value\<close> is bounded by a counter that \<open>JSON_parse\<close> sets
  from the length of the text.
\<close>

definition json_ws :: "char \<Rightarrow> bool" where
  "json_ws c = (c \<in> set [CHR 0x20, CHR 0x09, CHR 0x0A, CHR 0x0D])"

definition skip_ws :: "string \<Rightarrow> string" where
  "skip_ws s = dropWhile json_ws s"

definition hex_val :: "char \<Rightarrow> nat option" where
  "hex_val c =
     (let n = (of_char c :: nat) in
      if 48 \<le> n \<and> n \<le> 57 then Some (n - 48)
      else if 97 \<le> n \<and> n \<le> 102 then Some (n - 87)
      else if 65 \<le> n \<and> n \<le> 70 then Some (n - 55)
      else None)"

definition hex4 :: "char \<Rightarrow> char \<Rightarrow> char \<Rightarrow> char \<Rightarrow> nat option" where
  "hex4 a b c d =
     (case (hex_val a, hex_val b, hex_val c, hex_val d) of
        (Some x, Some y, Some z, Some u) \<Rightarrow> Some (((x * 16 + y) * 16 + z) * 16 + u)
      | _ \<Rightarrow> None)"

definition unescape :: "char \<Rightarrow> char option" where
  "unescape e =
     (if e = CHR 0x22 then Some (CHR 0x22)
      else if e = CHR 0x5C then Some (CHR 0x5C)
      else if e = CHR ''/'' then Some (CHR ''/'')
      else if e = CHR ''b'' then Some (CHR 0x08)
      else if e = CHR ''f'' then Some (CHR 0x0C)
      else if e = CHR ''n'' then Some (CHR 0x0A)
      else if e = CHR ''r'' then Some (CHR 0x0D)
      else if e = CHR ''t'' then Some (CHR 0x09)
      else None)"

definition cons_fst :: "'a \<Rightarrow> ('a list \<times> 'b) option \<Rightarrow> ('a list \<times> 'b) option" where
  "cons_fst x r = (case r of None \<Rightarrow> None | Some (xs, rest) \<Rightarrow> Some (x # xs, rest))"

fun parse_chars :: "string \<Rightarrow> (string \<times> string) option" where
  "parse_chars [] = None"
| "parse_chars (c # cs) =
     (if c = CHR 0x22 then Some ([], cs)
      else if c = CHR 0x5C then
        (case cs of
           [] \<Rightarrow> None
         | e # cs1 \<Rightarrow>
             if e = CHR ''u'' then
               (case cs1 of
                  h1 # h2 # h3 # h4 # cs2 \<Rightarrow>
                    (case hex4 h1 h2 h3 h4 of
                       None \<Rightarrow> None
                     | Some n \<Rightarrow> if n < 256 then cons_fst (char_of n) (parse_chars cs2) else None)
                | _ \<Rightarrow> None)
             else (case unescape e of
                     None \<Rightarrow> None
                   | Some d \<Rightarrow> cons_fst d (parse_chars cs1)))
      else if (of_char c :: nat) < 32 then None
      else cons_fst c (parse_chars cs))"

definition parse_number :: "string \<Rightarrow> (jsval \<times> string) option" where
  "parse_number s =
     (let neg = (s \<noteq> [] \<and> hd s = CHR ''-'');
          s1 = (if neg then tl s else s);
          ds = takeWhile is_digit s1;
          rest = dropWhile is_digit s1
      in if ds = [] then None
         else if 1 < length ds \<and> hd ds = CHR ''0'' then None
         else if rest \<noteq> [] \<and> hd rest \<in> set [CHR ''.'', CHR ''e'', CHR ''E''] then None
         else Some (JNum (if neg then - int (read_nat ds) else int (read_nat ds)), rest))"

definition parse_literal :: "string \<Rightarrow> jsval \<Rightarrow> string \<Rightarrow> (jsval \<times> string) option" where
  "parse_literal lit v s =
     (if take (length lit) s = lit then Some (v, drop (length lit) s) else None)"

definition build_object :: "(string \<times> jsval) list \<Rightarrow> (string \<times> jsval) list" where
  "build_object ms = foldl (\<lambda>acc kv. AList.update (fst kv) (snd kv) acc) [] ms"

fun parse_value :: "nat \<Rightarrow> string \<Rightarrow> (jsval \<times> string) option"
  and parse_elements :: "nat \<Rightarrow> string \<Rightarrow> (jsval list \<times> string) option"
  and parse_members :: "nat \<Rightarrow> string \<Rightarrow> ((string \<times> jsval) list \<times> string) option"
where
  "parse_value 0 s = None"
| "parse_value (Suc n) s =
     (case skip_ws s of
        [] \<Rightarrow> None
      | c # cs \<Rightarrow>
          if c = CHR ''n'' then parse_literal ''null'' JNull (c # cs)
          else if c = CHR ''t'' then parse_literal ''true'' (JBool True) (c # cs)
          else if c = CHR ''f'' then parse_literal ''false'' (JBool False) (c # cs)
          else if c = CHR 0x22 then
            (case parse_chars cs of None \<Rightarrow> None | Some (t, r) \<Rightarrow> Some (JStr t, r))
          else if c = CHR ''['' then
            (case skip_ws cs of
               [] \<Rightarrow> None
             | d # ds \<Rightarrow>
                 if d = CHR '']'' then Some (JArr [], ds)
                 else (case parse_elements n cs of
                         None \<Rightarrow> None
                       | Some (xs, r) \<Rightarrow> Some (JArr xs, r)))
          else if c = CHR ''{'' then
            (case skip_ws cs of
               [] \<Rightarrow> None
             | d # ds \<Rightarrow>
                 if d = CHR ''}'' then Some (JObj [], ds)
                 else (case parse_members n cs of
                         None \<Rightarrow> None
                       | Some (ms, r) \<Rightarrow> Some (JObj (build_object ms), r)))
          else parse_number (c # cs))"
| "parse_elements 0 s = None"
| "parse_elements (Suc n) s =
     (case parse_value n s of
        None \<Rightarrow> None
      | Some (v, r) \<Rightarrow>
          (case skip_ws r of
             [] \<Rightarrow> None
           | c # cs \<Rightarrow>
               if c = CHR '','' then cons_fst v (parse_elements n cs)
               else if c = CHR '']'' then Some ([v], cs)
               else None))"
| "parse_members 0 s = None"
| "parse_members (Suc n) s =
     (case skip_ws s of
        [] \<Rightarrow> None
      | q # s1 \<Rightarrow>
          if q \<noteq> CHR 0x22 then None
          else (case parse_chars s1 of
                  None \<Rightarrow> None
                | Some (k, s2) \<Rightarrow>
                    (case skip_ws s2 of
                       [] \<Rightarrow> None
                     | c # s3 \<Rightarrow>
                         if c \<noteq> CHR '':'' then None
                         else (case parse_value n s3 of
                                 None \<Rightarrow> None
                               | Some (v, s4) \<Rightarrow>
                                   (case skip_ws s4 of
                                      [] \<Rightarrow> None
                                    | d # s5 \<Rightarrow>
                                        if d = CHR '','' then cons_fst (k, v) (parse_members n s5)
                                        else if d = CHR ''}'' then Some ([(k, v)], s5)
                                        else None)))))"

definition JSON_parse :: "string \<Rightarrow> jsval option" where
  "JSON_parse s =
     (case parse_value (2 * length s + 1) s of
        None \<Rightarrow> None
      | Some (v, r) \<Rightarrow> if skip_ws r = [] then Some v else None)"

section \<open>The world: environment, clock, network, observable effects\<close>

record response =
  headers :: "(string \<times> string) list"
  res_json :: "jsval + jsval"

text \<open>
  \<open>res_json\<close> is how \<^verbatim>\<open>res.json()\<close> settles: \<open>Inr\<close> the parsed body, \<open>Inl\<close> the error it
  rejects with when the body is not JSON.  A \<^verbatim>\<open>fetch\<close> settles with a response or rejects;
  \<open>network\<close> lists, for the calls still to come, the clock reading at which each settles
  and how.  A call made when the list is empty never settles.
\<close>

datatype reply = Rejects jsval | Resolves response

datatype request =
    GET string
  | POST string "(string \<times> string) list" "string option"

datatype 'a completion = Normal 'a | Thrown jsval | Blocked

text \<open>
  What a run leaves behind, in order: a request handed to \<^verbatim>\<open>fetch\<close>, the settling of the
  request issued last, a call of the handler with its event and \<open>awsRequestId\<close>, the
  handler's return or throw, a line on standard error, the exit of the process.
\<close>

datatype effect =
    Issued request
  | Settled reply
  | Invoked jsval "string option"
  | Returned jsval
  | Threw jsval
  | Stderr string
  | ProcessExit int

record world =
  process_env :: environ
  clock :: int
  network :: "(int \<times> reply) list"
  effects :: "effect list"

definition fetch :: "request \<Rightarrow> world \<Rightarrow> response completion \<times> world" where
  "fetch req w =
     (case network w of
        [] \<Rightarrow> (Blocked, w\<lparr>effects := effects w @ [Issued req]\<rparr>)
      | (t, r) # rest \<Rightarrow>
          (case r of Rejects e \<Rightarrow> Thrown e | Resolves res \<Rightarrow> Normal res,
           w\<lparr>clock := t, network := rest, effects := effects w @ [Issued req, Settled r]\<rparr>))"

text \<open>\<^verbatim>\<open>headers.get(name)\<close>: \<open>None\<close> is \<^verbatim>\<open>null\<close>.\<close>

definition headers_get :: "response \<Rightarrow> string \<Rightarrow> string option" where
  "headers_get res k = map_of (headers res) k"

section \<open>The runtime\<close>

definition RUNTIME_API :: "environ \<Rightarrow> string option" where
  "RUNTIME_API env = getenv env ''AWS_LAMBDA_RUNTIME_API''"

text \<open>A \<^verbatim>\<open>string | undefined\<close> and a \<^verbatim>\<open>string | null\<close> inside a template literal.\<close>

definition api_text :: "string option \<Rightarrow> string" where
  "api_text api = (case api of None \<Rightarrow> ''undefined'' | Some s \<Rightarrow> s)"

definition id_text :: "string option \<Rightarrow> string" where
  "id_text rid = (case rid of None \<Rightarrow> ''null'' | Some s \<Rightarrow> s)"

definition init_error_url :: "string option \<Rightarrow> string" where
  "init_error_url api = ''http://'' @ api_text api @ ''/2018-06-01/runtime/init/error''"

definition next_url :: "string option \<Rightarrow> string" where
  "next_url api = ''http://'' @ api_text api @ ''/2018-06-01/runtime/invocation/next''"

definition response_url :: "string option \<Rightarrow> string option \<Rightarrow> string" where
  "response_url api rid =
     ''http://'' @ api_text api @ ''/2018-06-01/runtime/invocation/'' @ id_text rid @ ''/response''"

definition error_url :: "string option \<Rightarrow> string option \<Rightarrow> string" where
  "error_url api rid =
     ''http://'' @ api_text api @ ''/2018-06-01/runtime/invocation/'' @ id_text rid @ ''/error''"

text \<open>
  \<^verbatim>\<open>
  async function post(url: string, payload: unknown) {
    await fetch(url, {
      method: "POST",
      headers: { "content-type": "application/json" },
      body: typeof payload === "string" ? payload : JSON.stringify(payload),
    });
  }
  \<close>
\<close>

definition post_body :: "jsval \<Rightarrow> string option" where
  "post_body payload = (case payload of JStr s \<Rightarrow> Some s | _ \<Rightarrow> JSON_stringify payload)"

definition post :: "string \<Rightarrow> jsval \<Rightarrow> world \<Rightarrow> unit completion \<times> world" where
  "post url payload w =
     (case fetch (POST url [(''content-type'', ''application/json'')] (post_body payload)) w of
        (Normal res, w') \<Rightarrow> (Normal (), w')
      | (Thrown e, w') \<Rightarrow> (Thrown e, w')
      | (Blocked, w') \<Rightarrow> (Blocked, w'))"

text \<open>
  \<^verbatim>\<open>
  async function reportInitError(err: unknown) {
    if (!RUNTIME_API) return;
    try {
      await post(`http://${RUNTIME_API}/2018-06-01/runtime/init/error`, toErrorPayload(err));
    } catch { /* noop */ }
  }
  \<close>
\<close>

definition reportInitError ::
  "engine \<Rightarrow> string option \<Rightarrow> jsval \<Rightarrow> world \<Rightarrow> unit completion \<times> world" where
  "reportInitError eng api err w =
     (if \<not> truthy api then (Normal (), w)
      else (case post (init_error_url api) (payload_value (toErrorPayload eng err)) w of
              (Thrown e, w') \<Rightarrow> (Normal (), w')
            | (Normal u, w') \<Rightarrow> (Normal (), w')
            | (Blocked, w') \<Rightarrow> (Blocked, w')))"

text \<open>
  \<^verbatim>\<open>header ? JSON.parse(header) : undefined\<close> for the client-context and identity headers.
\<close>

definition parse_header :: "engine \<Rightarrow> string option \<Rightarrow> jsval + jsval" where
  "parse_header eng h =
     (if truthy h then
        (case h of
           None \<Rightarrow> Inr JUndefined
         | Some s \<Rightarrow> (case JSON_parse s of
                        None \<Rightarrow> Inl (JError (syntax_error eng s))
                      | Some v \<Rightarrow> Inr v))
      else Inr JUndefined)"

text \<open>
  \<^verbatim>\<open>
  async function getNext() {
    const res = await fetch(`http://${RUNTIME_API}/2018-06-01/runtime/invocation/next`);
    const requestId = res.headers.get("Lambda-Runtime-Aws-Request-Id")!;
    const trace = res.headers.get("Lambda-Runtime-Trace-Id");
    const invokedArn = res.headers.get("Lambda-Runtime-Invoked-Function-Arn") ?? undefined;
    const deadlineMsStr = res.headers.get("Lambda-Runtime-Deadline-Ms") ??
      `${Date.now() + 3000}`;
    const clientContext = res.headers.get("Lambda-Runtime-Client-Context");
    const identity = res.headers.get("Lambda-Runtime-Cognito-Identity");
    const event = await res.json();
    if (trace) process.env["_X_AMZN_TRACE_ID"] = trace;
    return { requestId, invokedArn, deadlineMs: Number(deadlineMsStr),
      clientContext: clientContext ? JSON.parse(clientContext) : undefined,
      identity: identity ? JSON.parse(identity) : undefined, event };
  }
  \<close>
  \<^verbatim>\<open>Date.now()\<close> is the clock once the \<^verbatim>\<open>fetch\<close> has settled.
\<close>

definition publish_trace :: "string option \<Rightarrow> world \<Rightarrow> world" where
  "publish_trace tr w =
     (case tr of
        None \<Rightarrow> w
      | Some t \<Rightarrow> if t \<noteq> [] then w\<lparr>process_env := AList.update ''_X_AMZN_TRACE_ID'' t (process_env w)\<rparr>
                  else w)"

definition getNext :: "engine \<Rightarrow> string option \<Rightarrow> world \<Rightarrow> invocation completion \<times> world" where
  "getNext eng api w =
     (case fetch (GET (next_url api)) w of
        (Blocked, w1) \<Rightarrow> (Blocked, w1)
      | (Thrown e, w1) \<Rightarrow> (Thrown e, w1)
      | (Normal res, w1) \<Rightarrow>
          (let rid = headers_get res ''Lambda-Runtime-Aws-Request-Id'';
               tr = headers_get res ''Lambda-Runtime-Trace-Id'';
               arn = headers_get res ''Lambda-Runtime-Invoked-Function-Arn'';
               deadlineMsStr =
                 (case headers_get res ''Lambda-Runtime-Deadline-Ms'' of
                    Some s \<Rightarrow> s
                  | None \<Rightarrow> show_int (clock w1 + 3000));
               cc = headers_get res ''Lambda-Runtime-Client-Context'';
               idn = headers_get res ''Lambda-Runtime-Cognito-Identity''
           in case res_json res of
                Inl e \<Rightarrow> (Thrown e, w1)
              | Inr ev \<Rightarrow>
                  (let w2 = publish_trace tr w1 in
                   case parse_header eng cc of
                     Inl e \<Rightarrow> (Thrown e, w2)
                   | Inr ccv \<Rightarrow>
                       (case parse_header eng idn of
                          Inl e \<Rightarrow> (Thrown e, w2)
                        | Inr idv \<Rightarrow>
                            (Normal \<lparr> requestId = rid, invokedArn = arn,
                                      inv_deadlineMs = Number_js deadlineMsStr,
                                      inv_clientContext = ccv, inv_identity = idv,
                                      event = ev \<rparr>, w2)))))"

text \<open>
  \<^verbatim>\<open>
  async function respond(requestId: string, result: unknown) {
    await post(`http://${RUNTIME_API}/2018-06-01/runtime/invocation/${requestId}/response`, result);
  }
  async function respondError(requestId: string, err: unknown) {
    await post(`http://${RUNTIME_API}/2018-06-01/runtime/invocation/${requestId}/error`,
      toErrorPayload(err));
  }
  \<close>
\<close>

definition respond :: "string option \<Rightarrow> string option \<Rightarrow> jsval \<Rightarrow> world \<Rightarrow> unit completion \<times> world" where
  "respond api rid result w = post (response_url api rid) result w"

definition respondError ::
  "engine \<Rightarrow> string option \<Rightarrow> string option \<Rightarrow> jsval \<Rightarrow> world \<Rightarrow> unit completion \<times> world" where
  "respondError eng api rid err w = post (error_url api rid) (payload_value (toErrorPayload eng err)) w"

text \<open>
  The handler is the embedder's: given the event and the context it returns a value,
  throws one, or never settles.  Calling it leaves the call and its end among the effects.
\<close>

type_synonym handler = "jsval \<Rightarrow> Context \<Rightarrow> jsval completion"

definition invoke :: "handler \<Rightarrow> jsval \<Rightarrow> Context \<Rightarrow> world \<Rightarrow> jsval completion \<times> world" where
  "invoke h ev ctx w =
     (case h ev ctx of
        Normal out \<Rightarrow> (Normal out, w\<lparr>effects := effects w @ [Invoked ev (awsRequestId ctx), Returned out]\<rparr>)
      | Thrown e \<Rightarrow> (Thrown e, w\<lparr>effects := effects w @ [Invoked ev (awsRequestId ctx), Threw e]\<rparr>)
      | Blocked \<Rightarrow> (Blocked, w\<lparr>effects := effects w @ [Invoked ev (awsRequestId ctx)]\<rparr>))"

text \<open>
  The body of the \<^verbatim>\<open>try\<close> block:
  \<^verbatim>\<open>const out = await handler(next.event, ctx); await respond(next.requestId, out);\<close>
\<close>

definition try_block ::
  "string option \<Rightarrow> handler \<Rightarrow> invocation \<Rightarrow> Context \<Rightarrow> world \<Rightarrow> unit completion \<times> world" where
  "try_block api h nxt ctx w =
     (case invoke h (event nxt) ctx w of
        (Normal out, w1) \<Rightarrow> respond api (requestId nxt) out w1
      | (Thrown e, w1) \<Rightarrow> (Thrown e, w1)
      | (Blocked, w1) \<Rightarrow> (Blocked, w1))"

text \<open>
  How \<^verbatim>\<open>start\<close> ends: its promise never resolves; it rejects, stays pending for ever on
  a call that never settles, or the process exits.
\<close>

datatype outcome = Rejected jsval | Pending | Exited int

text \<open>No call gives the network replies back, and a poll that returns took one.\<close>

lemma fetch_network_le: "fetch req w = (r, w') \<Longrightarrow> length (network w') \<le> length (network w)"
  by (auto simp: fetch_def split: list.splits prod.splits)

lemma fetch_network_less:
  "fetch req w = (Normal res, w') \<Longrightarrow> length (network w') < length (network w)"
  by (auto simp: fetch_def split: list.splits prod.splits reply.splits)

lemma post_network_le: "post url p w = (r, w') \<Longrightarrow> length (network w') \<le> length (network w)"
  unfolding post_def
  by (cases "fetch (POST url [(''content-type'', ''application/json'')] (post_body p)) w")
     (auto split: completion.splits dest: fetch_network_le)

lemma publish_trace_network [simp]: "network (publish_trace tr w) = network w"
  by (simp add: publish_trace_def split: option.splits)


lemma getNext_network_less:
  assumes "getNext eng api w = (Normal nxt, w')"
  shows "length (network w') < length (network w)"
proof (cases "fetch (GET (next_url api)) w")
  case (Pair c w1)
  show ?thesis
  proof (cases c)
    case (Normal res)
    with Pair have lt: "length (network w1) < length (network w)"
      by (simp add: fetch_network_less)
    from assms Pair Normal have "network w' = network w1"
      by (auto simp: getNext_def Let_def split: sum.splits)
    with lt show ?thesis by simp
  next
    case (Thrown e)
    with assms Pair show ?thesis by (simp add: getNext_def)
  next
    case Blocked
    with assms Pair show ?thesis by (simp add: getNext_def)
  qed
qed

lemma invoke_network: "invoke h ev ctx w = (r, w') \<Longrightarrow> network w' = network w"
  by (auto simp: invoke_def split: completion.splits)

lemma try_block_network_le:
  assumes "try_block api h nxt ctx w = (r, w')"
  shows "length (network w') \<le> length (network w)"
proof (cases "invoke h (event nxt) ctx w")
  case (Pair c w1)
  then have eq: "network w1 = network w" by (rule invoke_network)
  show ?thesis
  proof (cases c)
    case (Normal out)
    with assms Pair have "post (response_url api (requestId nxt)) out w1 = (r, w')"
      by (simp add: try_block_def respond_def)
    then show ?thesis using eq post_network_le by fastforce
  next
    case (Thrown e)
    with assms Pair eq show ?thesis by (simp add: try_block_def)
  next
    case Blocked
    with assms Pair eq show ?thesis by (simp add: try_block_def)
  qed
qed

lemma respondError_network_le:
  "respondError eng api rid e w = (r, w') \<Longrightarrow> length (network w') \<le> length (network w)"
  by (simp add: respondError_def post_network_le)

text \<open>
  \<^verbatim>\<open>
  for (;;) {
    const next = await getNext();
    const ctx = buildContext(next);
    try {
      const out = await handler(next.event, ctx);
      await respond(next.requestId, out);
    } catch (e) {
      await respondError(next.requestId, e);
    }
  }
  \<close>
  Every turn of the loop takes at least the reply to its poll from \<open>network\<close>, so the
  recursion ends: with the list used up, the next \<^verbatim>\<open>fetch\<close> never settles and the
  loop stays \<open>Pending\<close>.
\<close>

function loop :: "engine \<Rightarrow> string option \<Rightarrow> handler \<Rightarrow> world \<Rightarrow> outcome \<times> world" where
  "loop eng api h w =
     (case getNext eng api w of
        (Blocked, w1) \<Rightarrow> (Pending, w1)
      | (Thrown e, w1) \<Rightarrow> (Rejected e, w1)
      | (Normal nxt, w1) \<Rightarrow>
          (case try_block api h nxt (buildContext (process_env w1) nxt) w1 of
             (Blocked, w2) \<Rightarrow> (Pending, w2)
           | (Normal u, w2) \<Rightarrow> loop eng api h w2
           | (Thrown e, w2) \<Rightarrow>
               (case respondError eng api (requestId nxt) e w2 of
                  (Blocked, w3) \<Rightarrow> (Pending, w3)
                | (Thrown e', w3) \<Rightarrow> (Rejected e', w3)
                | (Normal u, w3) \<Rightarrow> loop eng api h w3)))"
  by pat_completeness auto
termination
proof (relation "measure (\<lambda>(eng, api, h, w). length (network w))")
  show "wf (measure (\<lambda>(eng, api, h, w). length (network w)))" by simp
next
  fix eng api h w x1 w1 nxt x1a w2 u
  assume a: "(x1, w1) = getNext eng api w" "x1 = Normal nxt"
    "(x1a, w2) = try_block api h nxt (buildContext (process_env w1) nxt) w1" "x1a = Normal u"
  from a(1,2) have "length (network w1) < length (network w)"
    by (intro getNext_network_less[of eng api w nxt w1]) simp
  moreover from a(3) have "length (network w2) \<le> length (network w1)"
    by (intro try_block_network_le[of api h nxt _ w1 x1a w2]) simp
  ultimately show "((eng, api, h, w2), eng, api, h, w) \<in> measure (\<lambda>(eng, api, h, w). length (network w))"
    by simp
next
  fix eng api h w x1 w1 nxt x1a w2 e x1b w3 u
  assume a: "(x1, w1) = getNext eng api w" "x1 = Normal nxt"
    "(x1a, w2) = try_block api h nxt (buildContext (process_env w1) nxt) w1" "x1a = Thrown e"
    "(x1b, w3) = respondError eng api (requestId nxt) e w2" "x1b = Normal u"
  from a(1,2) have "length (network w1) < length (network w)"
    by (intro getNext_network_less[of eng api w nxt w1]) simp
  moreover from a(3) have "length (network w2) \<le> length (network w1)"
    by (intro try_block_network_le[of api h nxt _ w1 x1a w2]) simp
  moreover from a(5) have "length (network w3) \<le> length (network w2)"
    by (intro respondError_network_le[of eng api _ e w2 x1b w3]) simp
  ultimately show "((eng, api, h, w3), eng, api, h, w) \<in> measure (\<lambda>(eng, api, h, w). length (network w))"
    by simp
qed

declare loop.simps [simp del]

text \<open>
  \<^verbatim>\<open>
  export async function start<A>(handler: Handler<A>): Promise<never> {
    if (!RUNTIME_API) {
      await reportInitError(new Error("AWS_LAMBDA_RUNTIME_API is not set. Not on Lambda?"));
      console.error("Not running in Lambda (AWS_LAMBDA_RUNTIME_API missing).");
      process.exit(1);
    }
    for (;;) { ... }
  }
  \<close>
  \<^verbatim>\<open>RUNTIME_API\<close> is read from the environment once, when the module is loaded.
\<close>

definition start :: "engine \<Rightarrow> handler \<Rightarrow> world \<Rightarrow> outcome \<times> world" where
  "start eng h w =
     (let api = RUNTIME_API (process_env w) in
      if \<not> truthy api then
        (case reportInitError eng api
                (JError (new_Error eng ''AWS_LAMBDA_RUNTIME_API is not set. Not on Lambda?'')) w of
           (Blocked, w1) \<Rightarrow> (Pending, w1)
         | (Thrown e, w1) \<Rightarrow> (Rejected e, w1)
         | (Normal u, w1) \<Rightarrow>
             (Exited 1,
              w1\<lparr>effects := effects w1 @
                 [Stderr ''Not running in Lambda (AWS_LAMBDA_RUNTIME_API missing).'',
                  ProcessExit 1]\<rparr>))
      else loop eng api h w)"

section \<open>Decimal numerals are read back\<close>

lemma of_char_digit_char: "d < 10 \<Longrightarrow> (of_char (digit_char d) :: nat) = 48 + d"
  by (simp add: digit_char_def)

lemma is_digit_digit_char: "d < 10 \<Longrightarrow> is_digit (digit_char d)"
  by (simp add: is_digit_def of_char_digit_char)

lemma digit_val_digit_char: "d < 10 \<Longrightarrow> digit_val (digit_char d) = d"
  by (simp add: digit_val_def of_char_digit_char)

lemma show_nat_digits: "list_all is_digit (show_nat n)"
proof (induction n rule: show_nat.induct)
  case (1 n)
  show ?case
  proof (cases "n < 10")
    case True
    then show ?thesis by (subst show_nat.simps) (simp add: is_digit_digit_char)
  next
    case False
    with 1 show ?thesis by (subst show_nat.simps) (simp add: is_digit_digit_char)
  qed
qed

lemma show_nat_nonempty: "show_nat n \<noteq> []"
  by (subst show_nat.simps) simp

lemma read_nat_snoc: "read_nat (s @ [c]) = 10 * read_nat s + digit_val c"
  by (simp add: read_nat_def)

lemma read_show_nat: "read_nat (show_nat n) = n"
proof (induction n rule: show_nat.induct)
  case (1 n)
  show ?case
  proof (cases "n < 10")
    case True
    then show ?thesis
      by (subst show_nat.simps) (simp add: read_nat_def digit_val_digit_char)
  next
    case False
    with 1 have "read_nat (show_nat (n div 10)) = n div 10" by simp
    with False show ?thesis
      by (subst show_nat.simps) (simp add: read_nat_snoc digit_val_digit_char)
  qed
qed

lemma digit_not_space: "is_digit c \<Longrightarrow> \<not> js_space c"
  by (auto simp: is_digit_def js_space_def)

lemma trim_no_space:
  assumes "s \<noteq> []" "\<not> js_space (hd s)" "\<not> js_space (last s)"
  shows "trim s = s"
proof -
  from assms have "dropWhile js_space s = s" by (cases s) auto
  moreover from assms have "dropWhile js_space (rev s) = rev s"
    by (cases "rev s") (auto simp: hd_rev)
  ultimately show ?thesis by (simp add: trim_def)
qed

lemma is_digit_not_sign: "is_digit c \<Longrightarrow> c \<noteq> CHR ''-'' \<and> c \<noteq> CHR ''+''"
  by (auto simp: is_digit_def)

lemma show_nat_last_digit: "is_digit (last (show_nat n))"
  using show_nat_digits[of n] show_nat_nonempty[of n]
  by (simp add: list_all_iff)

lemma show_nat_hd_digit: "is_digit (hd (show_nat n))"
  using show_nat_digits[of n] show_nat_nonempty[of n]
  by (simp add: list_all_iff)

lemma Number_show_int: "Number_js (show_int i) = Finite i"
proof (cases "i < 0")
  case True
  let ?ds = "show_nat (nat (- i))"
  have "trim (CHR ''-'' # ?ds) = CHR ''-'' # ?ds"
    using show_nat_last_digit[of "nat (- i)"] show_nat_nonempty[of "nat (- i)"]
    by (intro trim_no_space) (auto simp: js_space_def dest: digit_not_space)
  with True show ?thesis
    by (simp add: Number_js_def show_int_def show_nat_nonempty show_nat_digits read_show_nat)
next
  case False
  let ?ds = "show_nat (nat i)"
  obtain c cs where cs: "?ds = c # cs" using show_nat_nonempty[of "nat i"] by (cases ?ds) auto
  have dig: "list_all is_digit (c # cs)" using show_nat_digits[of "nat i"] cs by simp
  then have c: "is_digit c" by simp
  have "trim ?ds = ?ds"
    using show_nat_last_digit[of "nat i"] show_nat_hd_digit[of "nat i"] show_nat_nonempty[of "nat i"]
    by (intro trim_no_space) (auto dest: digit_not_space)
  moreover have "read_nat (c # cs) = nat i" using read_show_nat[of "nat i"] cs by simp
  ultimately show ?thesis using False cs dig is_digit_not_sign[OF c]
    by (simp add: Number_js_def show_int_def)
qed

section \<open>Sample inputs\<close>

text \<open>A concrete engine, responses and worlds on which the theorems below are exercised.\<close>

definition sample_engine :: engine where
  "sample_engine =
     \<lparr> capture_stack = (\<lambda>msg. Some (''Error: '' @ msg @ [CHR 0x0A] @ ''    at handler (file:///app/main.ts:3:9)'')),
       syntax_error = (\<lambda>s. \<lparr> err_name = ''SyntaxError'', err_message = ''Unexpected token'',
                               err_stack = None \<rparr>) \<rparr>"

definition sample_response :: "string \<Rightarrow> jsval \<Rightarrow> response" where
  "sample_response rid ev =
     \<lparr> headers = [(''Lambda-Runtime-Aws-Request-Id'', rid)], res_json = Inr ev \<rparr>"

definition sample_world :: "(int \<times> reply) list \<Rightarrow> world" where
  "sample_world net =
     \<lparr> process_env = [(''AWS_LAMBDA_RUNTIME_API'', ''127.0.0.1:9001'')],
       clock = 0, network = net, effects = [] \<rparr>"

definition sample_api :: "string option" where
  "sample_api = Some ''127.0.0.1:9001''"

definition sample_invocation :: invocation where
  "sample_invocation =
     \<lparr> requestId = Some ''1'', invokedArn = None, inv_deadlineMs = Finite 5000,
       inv_clientContext = JUndefined, inv_identity = JUndefined, event = JNull \<rparr>"

section \<open>The remaining time\<close>

text \<open>
  Claim C8.  For every context that \<open>buildContext\<close> constructs and every query time \<open>t\<close>,
  \<open>getRemainingTimeInMillis\<close> evaluated at \<open>t\<close> is \<^verbatim>\<open>Math.max(0, deadlineMs - t)\<close> for the
  deadline the context carries; the result is never below zero and never grows as \<open>t\<close>
  grows; for an integer deadline \<open>d\<close> it is the integer \<open>max 0 (d - t)\<close>.
\<close>

theorem remaining_time:
  "deadlineMs (buildContext env base) = inv_deadlineMs base
   \<and> getRemainingTimeInMillis (buildContext env base) t
       = Math_max (Finite 0) (js_minus (deadlineMs (buildContext env base)) (Finite t))
   \<and> \<not> js_less (getRemainingTimeInMillis (buildContext env base) t) (Finite 0)
   \<and> (t \<le> t' \<longrightarrow>
        \<not> js_less (getRemainingTimeInMillis (buildContext env base) t)
                   (getRemainingTimeInMillis (buildContext env base) t'))
   \<and> (inv_deadlineMs base = Finite d \<longrightarrow>
        getRemainingTimeInMillis (buildContext env base) t = Finite (max 0 (d - t)))"
  by (cases "inv_deadlineMs base") (simp_all add: buildContext_def)

theorem remaining_time_witness:
  "getRemainingTimeInMillis (buildContext [] sample_invocation) 1000 = Finite 4000
   \<and> getRemainingTimeInMillis (buildContext [] sample_invocation) 7000 = Finite 0
   \<and> (1000::int) \<le> 7000
   \<and> \<not> js_less (getRemainingTimeInMillis (buildContext [] sample_invocation) 1000)
                 (getRemainingTimeInMillis (buildContext [] sample_invocation) 7000)"
  using remaining_time [of "[]" sample_invocation 1000 7000 5000]
  by (simp add: sample_invocation_def buildContext_def)

section \<open>What a successful poll returns\<close>


lemma publish_trace_clock [simp]: "clock (publish_trace tr w) = clock w"
  by (simp add: publish_trace_def split: option.splits)





section \<open>Start-up without the runtime API address\<close>

text \<open>
  Claim C4.  When \<^verbatim>\<open>AWS_LAMBDA_RUNTIME_API\<close> is absent (or empty) when the module is loaded,
  \<open>start\<close> issues no request at all (no init-error report, which has no address to go to,
  and no poll), writes the diagnostic to standard error and exits the process with
  status 1; and \<open>reportInitError\<close> never throws, whatever becomes of its request.
\<close>

theorem fatal_startup:
  assumes "\<not> truthy (RUNTIME_API (process_env w))"
  shows "start eng h w =
           (Exited 1,
            w\<lparr>effects := effects w @
                [Stderr ''Not running in Lambda (AWS_LAMBDA_RUNTIME_API missing).'',
                 ProcessExit 1]\<rparr>)
       \<and> (\<forall>api err w0 e. fst (reportInitError eng api err w0) \<noteq> Thrown e)"
proof -
  have "fst (reportInitError eng api err w0) \<noteq> Thrown e" for api err w0 e
    by (cases "post (init_error_url api) (payload_value (toErrorPayload eng err)) w0")
       (auto simp: reportInitError_def split: completion.splits)
  moreover from assms have "start eng h w =
           (Exited 1,
            w\<lparr>effects := effects w @
                [Stderr ''Not running in Lambda (AWS_LAMBDA_RUNTIME_API missing).'',
                 ProcessExit 1]\<rparr>)"
    by (simp add: start_def reportInitError_def Let_def)
  ultimately show ?thesis by blast
qed

theorem fatal_startup_witness:
  "\<not> truthy (RUNTIME_API [(''AWS_LAMBDA_FUNCTION_NAME'', ''f'')])
   \<and> start sample_engine (\<lambda>ev ctx. Normal ev)
        \<lparr> process_env = [(''AWS_LAMBDA_FUNCTION_NAME'', ''f'')], clock = 0,
          network = [(5, Resolves (sample_response ''1'' JNull))], effects = [] \<rparr>
     = (Exited 1,
        \<lparr> process_env = [(''AWS_LAMBDA_FUNCTION_NAME'', ''f'')], clock = 0,
          network = [(5, Resolves (sample_response ''1'' JNull))],
          effects = [Stderr ''Not running in Lambda (AWS_LAMBDA_RUNTIME_API missing).'',
                     ProcessExit 1] \<rparr>)"
proof -
  have h: "\<not> truthy (RUNTIME_API (process_env
        \<lparr> process_env = [(''AWS_LAMBDA_FUNCTION_NAME'', ''f'')], clock = 0,
          network = [(5, Resolves (sample_response ''1'' JNull))], effects = [] \<rparr>))"
    by (simp add: RUNTIME_API_def getenv_def)
  from fatal_startup [OF h, of sample_engine "\<lambda>ev ctx. Normal ev"] h show ?thesis by simp
qed

section \<open>The payload of an error\<close>

lemma toErrorPayload_Error:
  "toErrorPayload eng (JError e) =
     \<lparr> errorType = (if err_name e = [] then ''Error'' else err_name e),
       errorMessage = err_message e,
       stackTrace = map trim (split_nl (case err_stack e of None \<Rightarrow> [] | Some st \<Rightarrow> st)) \<rparr>"
  by (simp add: toErrorPayload_def)

lemma toErrorPayload_other:
  "\<forall>e. err \<noteq> JError e \<Longrightarrow>
   errorType (toErrorPayload eng err) = ''Error''
   \<and> errorMessage (toErrorPayload eng err) = String_js err"
  by (cases err) (auto simp: toErrorPayload_def new_Error_def)

lemma toErrorPayload_string:
  "errorType (toErrorPayload eng (JStr ''hello'')) = ''Error''
   \<and> errorMessage (toErrorPayload eng (JStr ''hello'')) = ''hello''"
  by (simp add: toErrorPayload_def new_Error_def)


text \<open>
  Claim C5.  For an \<^verbatim>\<open>Error\<close> whose \<^verbatim>\<open>stack\<close> is undefined, \<open>toErrorPayload\<close> takes the name
  (or \<^verbatim>\<open>"Error"\<close> when it is empty) and the message, and its \<open>stackTrace\<close> is the list with
  one empty line, since \<^verbatim>\<open>"".split("\n")\<close> is \<^verbatim>\<open>[""]\<close>; it is not the empty list.
\<close>

theorem toErrorPayload_no_stack:
  "toErrorPayload eng (JError \<lparr> err_name = n, err_message = m, err_stack = None \<rparr>)
   = \<lparr> errorType = (if n \<noteq> [] then n else ''Error''), errorMessage = m, stackTrace = [[]] \<rparr>"
  by (simp add: toErrorPayload_def trim_def)

section \<open>One step at a time\<close>

lemma post_empty:
  "network w = [] \<Longrightarrow>
   post url p w = (Blocked, w\<lparr>effects := effects w @ [Issued (POST url [(''content-type'', ''application/json'')] (post_body p))]\<rparr>)"
  by (simp add: post_def fetch_def)

lemma post_Rejects:
  "network w = (t, Rejects x) # rest \<Longrightarrow>
   post url p w =
     (Thrown x, w\<lparr>clock := t, network := rest,
        effects := effects w @ [Issued (POST url [(''content-type'', ''application/json'')] (post_body p)),
                                Settled (Rejects x)]\<rparr>)"
  by (simp add: post_def fetch_def)

lemma post_Resolves:
  "network w = (t, Resolves r) # rest \<Longrightarrow>
   post url p w =
     (Normal (), w\<lparr>clock := t, network := rest,
        effects := effects w @ [Issued (POST url [(''content-type'', ''application/json'')] (post_body p)),
                                Settled (Resolves r)]\<rparr>)"
  by (simp add: post_def fetch_def)

lemma getNext_bad_body:
  assumes "network w = (t, Resolves res) # rest" and "res_json res = Inl e"
  shows "getNext eng api w =
           (Thrown e, w\<lparr>clock := t, network := rest,
              effects := effects w @ [Issued (GET (next_url api)), Settled (Resolves res)]\<rparr>)"
  using assms by (simp add: getNext_def fetch_def)

lemma loop_poll_Thrown:
  "getNext eng api w = (Thrown e, w1) \<Longrightarrow> loop eng api h w = (Rejected e, w1)"
  by (subst loop.simps) simp

lemma loop_poll_Blocked:
  "getNext eng api w = (Blocked, w1) \<Longrightarrow> loop eng api h w = (Pending, w1)"
  by (subst loop.simps) simp

lemma loop_try_Normal:
  "getNext eng api w = (Normal nxt, w1) \<Longrightarrow>
   try_block api h nxt (buildContext (process_env w1) nxt) w1 = (Normal u, w2) \<Longrightarrow>
   loop eng api h w = loop eng api h w2"
  by (subst loop.simps) simp

lemma loop_try_Blocked:
  "getNext eng api w = (Normal nxt, w1) \<Longrightarrow>
   try_block api h nxt (buildContext (process_env w1) nxt) w1 = (Blocked, w2) \<Longrightarrow>
   loop eng api h w = (Pending, w2)"
  by (subst loop.simps) simp

lemma loop_catch:
  "getNext eng api w = (Normal nxt, w1) \<Longrightarrow>
   try_block api h nxt (buildContext (process_env w1) nxt) w1 = (Thrown e, w2) \<Longrightarrow>
   loop eng api h w =
     (case respondError eng api (requestId nxt) e w2 of
        (Blocked, w3) \<Rightarrow> (Pending, w3)
      | (Thrown e', w3) \<Rightarrow> (Rejected e', w3)
      | (Normal u, w3) \<Rightarrow> loop eng api h w3)"
  by (subst loop.simps) simp

lemma start_loop:
  "truthy (RUNTIME_API (process_env w)) \<Longrightarrow>
   start eng h w = loop eng (RUNTIME_API (process_env w)) h w"
  by (simp add: start_def Let_def)


section \<open>One invocation at a time\<close>

text \<open>
  The order that claim C1 asks for, as a reading of the effects.  \<open>flight\<close> is where the
  current invocation stands: none fetched, a poll awaiting its reply, an invocation in
  flight under its request id, a report for it issued, a report for it settled.  \<open>track\<close>
  refuses (\<open>None\<close>) a poll request issued while a poll is awaited or an invocation is in
  flight with no settled report.
\<close>

datatype flight =
    NoInvocation
  | Awaiting
  | InFlight "string option"
  | ReportIssued "string option"
  | ReportDone "string option"

definition is_report_url :: "string option \<Rightarrow> string option \<Rightarrow> string \<Rightarrow> bool" where
  "is_report_url api rid u = (u = response_url api rid \<or> u = error_url api rid)"

fun track :: "string option \<Rightarrow> flight \<Rightarrow> effect \<Rightarrow> flight option" where
  "track api st (Issued (GET u)) =
     (if u = next_url api then
        (case st of NoInvocation \<Rightarrow> Some Awaiting | ReportDone rid \<Rightarrow> Some Awaiting | _ \<Rightarrow> None)
      else Some st)"
| "track api st (Issued (POST u hs b)) =
     (case st of
        InFlight rid \<Rightarrow> Some (if is_report_url api rid u then ReportIssued rid else st)
      | ReportDone rid \<Rightarrow> Some (if is_report_url api rid u then ReportIssued rid else st)
      | _ \<Rightarrow> Some st)"
| "track api st (Settled r) =
     (case st of
        Awaiting \<Rightarrow>
          Some (case r of
                  Resolves res \<Rightarrow> InFlight (headers_get res ''Lambda-Runtime-Aws-Request-Id'')
                | Rejects e \<Rightarrow> NoInvocation)
      | ReportIssued rid \<Rightarrow> Some (ReportDone rid)
      | _ \<Rightarrow> Some st)"
| "track api st (Invoked ev rid) = Some st"
| "track api st (Returned v) = Some st"
| "track api st (Threw v) = Some st"
| "track api st (Stderr s) = Some st"
| "track api st (ProcessExit n) = Some st"

fun observe :: "string option \<Rightarrow> flight \<Rightarrow> effect list \<Rightarrow> flight option" where
  "observe api st [] = Some st"
| "observe api st (e # es) =
     (case track api st e of None \<Rightarrow> None | Some st' \<Rightarrow> observe api st' es)"

lemma observe_append:
  "observe api st (xs @ ys) =
     (case observe api st xs of None \<Rightarrow> None | Some st' \<Rightarrow> observe api st' ys)"
  by (induction xs arbitrary: st) (auto split: option.splits)

lemma post_effects:
  assumes "post url p w = (c, w')"
  shows "(c = Blocked \<and> effects w' = effects w @ [Issued (POST url [(''content-type'', ''application/json'')] (post_body p))])
       \<or> (c \<noteq> Blocked \<and> (\<exists>r. effects w' = effects w @
              [Issued (POST url [(''content-type'', ''application/json'')] (post_body p)), Settled r]))"
proof (cases "network w")
  case Nil
  with assms show ?thesis by (auto simp: post_empty)
next
  case (Cons a rest)
  obtain t r where a: "a = (t, r)" by (cases a)
  show ?thesis
  proof (cases r)
    case (Rejects x)
    with assms Cons a show ?thesis by (auto simp: post_Rejects)
  next
    case (Resolves res)
    with assms Cons a show ?thesis by (auto simp: post_Resolves)
  qed
qed

lemma publish_trace_effects [simp]: "effects (publish_trace tr w) = effects w"
  by (simp add: publish_trace_def split: option.splits)

lemma getNext_effects:
  assumes "getNext eng api w = (c, w')"
  shows "(c = Blocked \<and> effects w' = effects w @ [Issued (GET (next_url api))])
       \<or> (\<exists>e x. c = Thrown e \<and> effects w' = effects w @ [Issued (GET (next_url api)), Settled x])
       \<or> (\<exists>nxt res. c = Normal nxt
             \<and> effects w' = effects w @ [Issued (GET (next_url api)), Settled (Resolves res)]
             \<and> requestId nxt = headers_get res ''Lambda-Runtime-Aws-Request-Id'')"
proof (cases "network w")
  case Nil
  with assms show ?thesis by (auto simp: getNext_def fetch_def)
next
  case (Cons a rest)
  obtain t r where a: "a = (t, r)" by (cases a)
  show ?thesis
  proof (cases r)
    case (Rejects x)
    with assms Cons a show ?thesis by (auto simp: getNext_def fetch_def)
  next
    case (Resolves res)
    with assms Cons a show ?thesis
      by (auto simp: getNext_def fetch_def Let_def split: sum.splits)
  qed
qed

lemma invoke_effects:
  assumes "invoke h ev ctx w = (c, w')"
  shows "\<exists>sfx. effects w' = effects w @ Invoked ev (awsRequestId ctx) # sfx
           \<and> (sfx = [] \<or> (\<exists>v. sfx = [Returned v]) \<or> (\<exists>v. sfx = [Threw v]))"
  using assms by (auto simp: invoke_def split: completion.splits)

lemma buildContext_awsRequestId [simp]: "awsRequestId (buildContext env nxt) = requestId nxt"
  by (simp add: buildContext_def)

definition ready :: "flight \<Rightarrow> bool" where
  "ready st = (case st of NoInvocation \<Rightarrow> True | ReportDone rid \<Rightarrow> True | _ \<Rightarrow> False)"

lemma observe_invoke:
  assumes "invoke h ev ctx w = (c, w')"
  shows "\<exists>sfx. effects w' = effects w @ sfx \<and> (\<forall>st. observe api st sfx = Some st)"
proof -
  from invoke_effects[OF assms] obtain sfx where
    e: "effects w' = effects w @ Invoked ev (awsRequestId ctx) # sfx"
    and s: "sfx = [] \<or> (\<exists>v. sfx = [Returned v]) \<or> (\<exists>v. sfx = [Threw v])" by blast
  from s have "observe api st (Invoked ev (awsRequestId ctx) # sfx) = Some st" for st by auto
  with e show ?thesis by blast
qed

lemma observe_report:
  assumes "post u p w = (c, w')" and "is_report_url api rid u"
    and "st = InFlight rid \<or> st = ReportDone rid"
  shows "\<exists>sfx. effects w' = effects w @ sfx
           \<and> (if c = Blocked then observe api st sfx = Some (ReportIssued rid)
               else observe api st sfx = Some (ReportDone rid))"
  using post_effects[OF assms(1)] assms(2,3) by auto

lemma observe_try_block:
  assumes "try_block api h nxt ctx w = (c, w')"
  shows "\<exists>sfx. effects w' = effects w @ sfx
           \<and> (case c of
                 Normal u \<Rightarrow> observe api (InFlight (requestId nxt)) sfx = Some (ReportDone (requestId nxt))
               | Thrown e \<Rightarrow> observe api (InFlight (requestId nxt)) sfx = Some (InFlight (requestId nxt))
                            \<or> observe api (InFlight (requestId nxt)) sfx = Some (ReportDone (requestId nxt))
               | Blocked \<Rightarrow> observe api (InFlight (requestId nxt)) sfx \<noteq> None)"
proof (cases "invoke h (event nxt) ctx w")
  case (Pair ci wi)
  from observe_invoke[OF Pair] obtain s1 where
    s1: "effects wi = effects w @ s1" "\<And>st. observe api st s1 = Some st" by blast
  show ?thesis
  proof (cases ci)
    case (Normal out)
    with assms Pair have p: "post (response_url api (requestId nxt)) out wi = (c, w')"
      by (simp add: try_block_def respond_def)
    from observe_report[OF p, of api "requestId nxt" "InFlight (requestId nxt)"]
    obtain s2 where s2: "effects w' = effects wi @ s2"
      "if c = Blocked then observe api (InFlight (requestId nxt)) s2 = Some (ReportIssued (requestId nxt))
       else observe api (InFlight (requestId nxt)) s2 = Some (ReportDone (requestId nxt))"
      by (auto simp: is_report_url_def)
    have "effects w' = effects w @ (s1 @ s2)" using s1(1) s2(1) by simp
    moreover have "case c of
        Normal u \<Rightarrow> observe api (InFlight (requestId nxt)) (s1 @ s2) = Some (ReportDone (requestId nxt))
      | Thrown e \<Rightarrow> observe api (InFlight (requestId nxt)) (s1 @ s2) = Some (InFlight (requestId nxt))
                    \<or> observe api (InFlight (requestId nxt)) (s1 @ s2) = Some (ReportDone (requestId nxt))
      | Blocked \<Rightarrow> observe api (InFlight (requestId nxt)) (s1 @ s2) \<noteq> None"
      using s1(2) s2(2) by (cases c) (simp_all add: observe_append)
    ultimately show ?thesis by blast
  next
    case (Thrown e)
    with assms Pair have "c = Thrown e" "w' = wi" by (simp_all add: try_block_def)
    with s1 show ?thesis by auto
  next
    case Blocked
    with assms Pair have "c = Blocked" "w' = wi" by (simp_all add: try_block_def)
    with s1 show ?thesis by auto
  qed
qed


lemma observe_poll:
  "ready st \<Longrightarrow> observe api st [Issued (GET (next_url api))] = Some Awaiting"
  by (cases st) (simp_all add: ready_def)

lemma loop_observe:
  "\<exists>sfx. effects (snd (loop eng api h w)) = effects w @ sfx
         \<and> (\<forall>st. ready st \<longrightarrow> observe api st sfx \<noteq> None)"
proof (induction eng api h w rule: loop.induct)
  case (1 eng api h w)
  obtain c w1 where g: "getNext eng api w = (c, w1)" by (cases "getNext eng api w")
  from getNext_effects[OF g] consider
      (blocked) "c = Blocked" "effects w1 = effects w @ [Issued (GET (next_url api))]"
    | (thrown) e x where "c = Thrown e"
        "effects w1 = effects w @ [Issued (GET (next_url api)), Settled x]"
    | (normal) nxt res where "c = Normal nxt"
        "effects w1 = effects w @ [Issued (GET (next_url api)), Settled (Resolves res)]"
        "requestId nxt = headers_get res ''Lambda-Runtime-Aws-Request-Id''"
    by blast
  then show ?case
  proof cases
    case blocked
    with g have l: "loop eng api h w = (Pending, w1)" by (simp add: loop_poll_Blocked)
    have "observe api st [Issued (GET (next_url api))] \<noteq> None" if "ready st" for st
      using observe_poll[OF that] by (simp del: observe.simps track.simps)
    with l blocked(2) show ?thesis by (auto simp del: observe.simps track.simps)
  next
    case thrown
    with g have l: "loop eng api h w = (Rejected e, w1)" by (simp add: loop_poll_Thrown)
    have "observe api st [Issued (GET (next_url api)), Settled x] \<noteq> None" if "ready st" for st
      using that by (cases st; cases x) (simp_all add: ready_def)
    with l thrown(2) show ?thesis by auto
  next
    case normal
    let ?rid = "requestId nxt"
    define s1 where "s1 = [Issued (GET (next_url api)), Settled (Resolves res)]"
    have o1: "observe api st s1 = Some (InFlight ?rid)" if "ready st" for st
      using that normal(3) by (cases st) (simp_all add: ready_def s1_def)
    have e1: "effects w1 = effects w @ s1" using normal(2) by (simp add: s1_def)
    from g normal(1) have g': "getNext eng api w = (Normal nxt, w1)" by simp
    obtain c2 w2 where t: "try_block api h nxt (buildContext (process_env w1) nxt) w1 = (c2, w2)"
      by (cases "try_block api h nxt (buildContext (process_env w1) nxt) w1")
    from observe_try_block[OF t] obtain s2 where
      s2: "effects w2 = effects w1 @ s2"
      and o2: "case c2 of
                 Normal u \<Rightarrow> observe api (InFlight ?rid) s2 = Some (ReportDone ?rid)
               | Thrown e \<Rightarrow> observe api (InFlight ?rid) s2 = Some (InFlight ?rid)
                            \<or> observe api (InFlight ?rid) s2 = Some (ReportDone ?rid)
               | Blocked \<Rightarrow> observe api (InFlight ?rid) s2 \<noteq> None"
      by blast
    show ?thesis
    proof (cases c2)
      case (Normal u)
      with g' t have l: "loop eng api h w = loop eng api h w2" by (simp add: loop_try_Normal)
      from "1.IH"(1)[OF g[symmetric] normal(1) t[symmetric] Normal]
      obtain s3 where s3: "effects (snd (loop eng api h w2)) = effects w2 @ s3"
        and o3: "\<And>st. ready st \<Longrightarrow> observe api st s3 \<noteq> None" by blast
      have "effects (snd (loop eng api h w)) = effects w @ (s1 @ s2 @ s3)"
        using l s3 s2 e1 by simp
      moreover have "observe api st (s1 @ s2 @ s3) \<noteq> None" if "ready st" for st
      proof -
        have "observe api st (s1 @ s2 @ s3) = observe api (ReportDone ?rid) s3"
          using o1[OF that] o2 Normal by (simp add: observe_append)
        with o3[of "ReportDone ?rid"] show ?thesis by (simp add: ready_def)
      qed
      ultimately show ?thesis by blast
    next
      case Blocked
      with g' t have l: "loop eng api h w = (Pending, w2)" by (simp add: loop_try_Blocked)
      have "effects (snd (loop eng api h w)) = effects w @ (s1 @ s2)"
        using l s2 e1 by simp
      moreover have "observe api st (s1 @ s2) \<noteq> None" if "ready st" for st
        using o1[OF that] o2 Blocked by (simp add: observe_append)
      ultimately show ?thesis by blast
    next
      case (Thrown e)
      obtain c3 w3 where r: "respondError eng api ?rid e w2 = (c3, w3)"
        by (cases "respondError eng api ?rid e w2")
      then have p: "post (error_url api ?rid) (payload_value (toErrorPayload eng e)) w2 = (c3, w3)"
        by (simp add: respondError_def)
      from o2 Thrown obtain st2 where
        st2: "observe api (InFlight ?rid) s2 = Some st2" "st2 = InFlight ?rid \<or> st2 = ReportDone ?rid"
        by auto
      from observe_report[OF p, of api ?rid st2] st2(2) obtain s3 where
        s3: "effects w3 = effects w2 @ s3"
        and o3: "if c3 = Blocked then observe api st2 s3 = Some (ReportIssued ?rid)
                 else observe api st2 s3 = Some (ReportDone ?rid)"
        by (auto simp: is_report_url_def)
      have pre: "observe api st (s1 @ s2 @ s3) =
                   Some (if c3 = Blocked then ReportIssued ?rid else ReportDone ?rid)"
        if "ready st" for st
        using o1[OF that] st2(1) o3 by (simp add: observe_append)
      from g' t Thrown r have l: "loop eng api h w =
          (case c3 of Blocked \<Rightarrow> (Pending, w3) | Thrown e' \<Rightarrow> (Rejected e', w3)
           | Normal u \<Rightarrow> loop eng api h w3)"
        by (simp add: loop_catch)
      show ?thesis
      proof (cases c3)
        case (Normal u)
        from "1.IH"(2)[OF g[symmetric] normal(1) t[symmetric] Thrown r[symmetric] Normal]
        obtain s4 where s4: "effects (snd (loop eng api h w3)) = effects w3 @ s4"
          and o4: "\<And>st. ready st \<Longrightarrow> observe api st s4 \<noteq> None" by blast
        have "effects (snd (loop eng api h w)) = effects w @ ((s1 @ s2 @ s3) @ s4)"
          using l Normal s4 s3 s2 e1 by simp
        moreover have "observe api st ((s1 @ s2 @ s3) @ s4) \<noteq> None" if "ready st" for st
          using pre[OF that] Normal o4[of "ReportDone ?rid"]
          by (simp only: observe_append) (simp add: ready_def)
        ultimately show ?thesis by blast
      next
        case Blocked
        have "effects (snd (loop eng api h w)) = effects w @ (s1 @ s2 @ s3)"
          using l Blocked s3 s2 e1 by simp
        moreover have "observe api st (s1 @ s2 @ s3) \<noteq> None" if "ready st" for st
          using pre[OF that] by simp
        ultimately show ?thesis by blast
      next
        case (Thrown e')
        have "effects (snd (loop eng api h w)) = effects w @ (s1 @ s2 @ s3)"
          using l Thrown s3 s2 e1 by simp
        moreover have "observe api st (s1 @ s2 @ s3) \<noteq> None" if "ready st" for st
          using pre[OF that] by simp
        ultimately show ?thesis by blast
      qed
    qed
  qed
qed

text \<open>
  Claim C1.  Read along the effects of any run of \<open>start\<close>, a poll request is issued only
  when no invocation is in flight: either none has been fetched yet, or a POST to the
  response or error endpoint of the invocation fetched last has been issued and has settled
  (returned or thrown).  \<open>observe\<close> follows the effects and fails at a poll issued earlier.
\<close>

theorem one_at_a_time:
  "\<exists>sfx. effects (snd (start eng h w)) = effects w @ sfx
         \<and> observe (RUNTIME_API (process_env w)) NoInvocation sfx \<noteq> None"
proof (cases "truthy (RUNTIME_API (process_env w))")
  case True
  with loop_observe[of eng "RUNTIME_API (process_env w)" h w] show ?thesis
    by (auto simp: start_loop ready_def)
next
  case False
  then have "start eng h w =
           (Exited 1,
            w\<lparr>effects := effects w @
                [Stderr ''Not running in Lambda (AWS_LAMBDA_RUNTIME_API missing).'',
                 ProcessExit 1]\<rparr>)"
    by (simp add: start_def reportInitError_def Let_def)
  then show ?thesis by simp
qed


lemmas run_defs = start_def loop.simps getNext_def fetch_def post_def try_block_def invoke_def
  respond_def respondError_def publish_trace_def parse_header_def headers_get_def
  sample_world_def sample_response_def RUNTIME_API_def getenv_def Let_def

definition throwing_handler :: handler where
  "throwing_handler ev ctx =
     Thrown (JError \<lparr> err_name = ''CustomError'', err_message = ''boom'', err_stack = None \<rparr>)"

definition network_down :: jsval where
  "network_down = JError \<lparr> err_name = ''TypeError'', err_message = ''error sending request'',
                            err_stack = None \<rparr>"

fun is_poll :: "effect \<Rightarrow> bool" where
  "is_poll (Issued (GET u)) = True"
| "is_poll _ = False"

section \<open>A poll whose body is not JSON\<close>

text \<open>
  Claim C3, as the code has it.  When the body of the poll response does not parse as JSON,
  \<^verbatim>\<open>res.json()\<close> rejects inside \<open>getNext\<close>, which \<open>start\<close> calls outside its
  \<^verbatim>\<open>try\<close> block: the handler is not called, nothing is posted to the error endpoint (or
  anywhere), and the rejection leaves \<open>start\<close>, which ends the loop.
\<close>

theorem poll_body_parse_failure:
  assumes "truthy (RUNTIME_API (process_env w))"
    and "network w = (t, Resolves res) # rest"
    and "res_json res = Inl e"
  shows "getNext eng (RUNTIME_API (process_env w)) w =
           (Thrown e, w\<lparr>clock := t, network := rest,
              effects := effects w @ [Issued (GET (next_url (RUNTIME_API (process_env w)))),
                                      Settled (Resolves res)]\<rparr>)
       \<and> start eng h w =
           (Rejected e, w\<lparr>clock := t, network := rest,
              effects := effects w @ [Issued (GET (next_url (RUNTIME_API (process_env w)))),
                                      Settled (Resolves res)]\<rparr>)"
proof -
  let ?api = "RUNTIME_API (process_env w)"
  have g: "getNext eng ?api w =
           (Thrown e, w\<lparr>clock := t, network := rest,
              effects := effects w @ [Issued (GET (next_url ?api)), Settled (Resolves res)]\<rparr>)"
    using assms(2,3) by (rule getNext_bad_body)
  then have "loop eng ?api h w =
           (Rejected e, w\<lparr>clock := t, network := rest,
              effects := effects w @ [Issued (GET (next_url ?api)), Settled (Resolves res)]\<rparr>)"
    by (rule loop_poll_Thrown)
  with g assms(1) show ?thesis by (simp add: start_loop)
qed

definition echo_handler :: handler where
  "echo_handler ev ctx = Normal ev"

definition bad_body_response :: response where
  "bad_body_response =
     \<lparr> headers = [(''Lambda-Runtime-Aws-Request-Id'', ''1'')],
       res_json = Inl (JError \<lparr> err_name = ''SyntaxError'', err_message = ''Unexpected end of JSON input'',
                               err_stack = None \<rparr>) \<rparr>"

lemma sample_api_env [simp]:
  "RUNTIME_API (process_env (sample_world net)) = sample_api"
  by (simp add: sample_world_def RUNTIME_API_def getenv_def sample_api_def)

text \<open>The run on a first reply with a broken body and a second invocation waiting.\<close>

theorem poll_body_parse_failure_witness:
  "start sample_engine echo_handler
     (sample_world [(1000, Resolves bad_body_response), (2000, Resolves (sample_response ''2'' JNull))])
   = (Rejected (JError \<lparr> err_name = ''SyntaxError'', err_message = ''Unexpected end of JSON input'',
                          err_stack = None \<rparr>),
      \<lparr> process_env = [(''AWS_LAMBDA_RUNTIME_API'', ''127.0.0.1:9001'')],
        clock = 1000,
        network = [(2000, Resolves (sample_response ''2'' JNull))],
        effects = [Issued (GET (next_url sample_api)), Settled (Resolves bad_body_response)] \<rparr>)"
proof -
  let ?w = "sample_world [(1000, Resolves bad_body_response), (2000, Resolves (sample_response ''2'' JNull))]"
  have h1: "truthy (RUNTIME_API (process_env ?w))" by (simp add: sample_api_def)
  have h2: "network ?w = (1000, Resolves bad_body_response) # [(2000, Resolves (sample_response ''2'' JNull))]"
    by (simp add: sample_world_def)
  have h3: "res_json bad_body_response = Inl (JError \<lparr> err_name = ''SyntaxError'',
      err_message = ''Unexpected end of JSON input'', err_stack = None \<rparr>)"
    by (simp add: bad_body_response_def)
  from poll_body_parse_failure [OF h1 h2 h3, of sample_engine echo_handler] show ?thesis
    by (simp add: sample_world_def RUNTIME_API_def getenv_def sample_api_def)
qed


fun is_POST :: "effect \<Rightarrow> bool" where
  "is_POST (Issued (POST u hs b)) = True"
| "is_POST _ = False"

text \<open>
  Against claim C3 as stated: on that run no request is ever posted, a single poll is
  issued, and the second invocation is never fetched.
\<close>

theorem poll_body_parse_failure_counterexample:
  "filter is_POST (effects (snd (start sample_engine echo_handler
       (sample_world [(1000, Resolves bad_body_response),
                      (2000, Resolves (sample_response ''2'' JNull))])))) = []
   \<and> filter is_poll (effects (snd (start sample_engine echo_handler
       (sample_world [(1000, Resolves bad_body_response),
                      (2000, Resolves (sample_response ''2'' JNull))]))))
       = [Issued (GET (next_url (Some ''127.0.0.1:9001'')))]
   \<and> network (snd (start sample_engine echo_handler
       (sample_world [(1000, Resolves bad_body_response),
                      (2000, Resolves (sample_response ''2'' JNull))])))
       = [(2000, Resolves (sample_response ''2'' JNull))]"
  by (simp add: run_defs bad_body_response_def echo_handler_def)

section \<open>What follows a poll that returned\<close>

lemma loop_effects_extend:
  "\<exists>sfx. effects (snd (loop eng api h w)) = effects w @ sfx"
  using loop_observe[of eng api h w] by blast

lemma loop_after_catch:
  assumes g: "getNext eng api w = (Normal nxt, w1)"
    and t: "try_block api h nxt (buildContext (process_env w1) nxt) w1 = (Thrown e, w2)"
    and r: "respondError eng api (requestId nxt) e w2 = (c3, w3)"
  shows "\<exists>s. effects (snd (loop eng api h w)) = effects w3 @ s"
proof -
  from g t r have l: "loop eng api h w =
      (case c3 of Blocked \<Rightarrow> (Pending, w3) | Thrown e' \<Rightarrow> (Rejected e', w3)
       | Normal u \<Rightarrow> loop eng api h w3)"
    by (simp add: loop_catch)
  show ?thesis
  proof (cases c3)
    case (Normal u)
    with l loop_effects_extend[of eng api h w3] show ?thesis by auto
  next
    case Blocked
    with l show ?thesis by simp
  next
    case (Thrown e')
    with l show ?thesis by simp
  qed
qed

lemma loop_after_try:
  assumes g: "getNext eng api w = (Normal nxt, w1)"
    and t: "try_block api h nxt (buildContext (process_env w1) nxt) w1 = (c2, w2)"
  shows "\<exists>s. effects (snd (loop eng api h w)) = effects w2 @ s"
proof (cases c2)
  case Blocked
  with g t show ?thesis by (simp add: loop_try_Blocked)
next
  case (Normal u)
  with g t have "loop eng api h w = loop eng api h w2" by (simp add: loop_try_Normal)
  with loop_effects_extend[of eng api h w2] show ?thesis by auto
next
  case (Thrown e)
  obtain c3 w3 where r: "respondError eng api (requestId nxt) e w2 = (c3, w3)"
    by (cases "respondError eng api (requestId nxt) e w2")
  then have "post (error_url api (requestId nxt)) (payload_value (toErrorPayload eng e)) w2 = (c3, w3)"
    by (simp add: respondError_def)
  from post_effects[OF this] obtain s3 where s3: "effects w3 = effects w2 @ s3" by auto
  from loop_after_catch[OF g _ r] t Thrown obtain s where
    "effects (snd (loop eng api h w)) = effects w3 @ s" by auto
  with s3 show ?thesis by simp
qed

lemma loop_starts_with_poll:
  "\<exists>sfx. effects (snd (loop eng api h w)) = effects w @ Issued (GET (next_url api)) # sfx"
proof -
  obtain c w1 where g: "getNext eng api w = (c, w1)" by (cases "getNext eng api w")
  from getNext_effects[OF g] obtain s1 where
    s1: "effects w1 = effects w @ Issued (GET (next_url api)) # s1" by auto
  have "\<exists>s2. effects (snd (loop eng api h w)) = effects w1 @ s2"
  proof (cases c)
    case Blocked
    with g show ?thesis by (simp add: loop_poll_Blocked)
  next
    case (Thrown e)
    with g show ?thesis by (simp add: loop_poll_Thrown)
  next
    case (Normal nxt)
    obtain c2 w2 where t: "try_block api h nxt (buildContext (process_env w1) nxt) w1 = (c2, w2)"
      by (cases "try_block api h nxt (buildContext (process_env w1) nxt) w1")
    from observe_try_block[OF t] obtain s2 where s2: "effects w2 = effects w1 @ s2" by blast
    from loop_after_try[OF _ t] g Normal obtain s where
      "effects (snd (loop eng api h w)) = effects w2 @ s" by auto
    with s2 show ?thesis by simp
  qed
  with s1 show ?thesis by auto
qed

lemma post_body_payload: "post_body (payload_value p) = JSON_stringify (payload_value p)"
  by (simp add: post_body_def payload_value_def)

lemma post_issues:
  assumes "post url p w = (c, w')"
  shows "\<exists>s. effects w' = effects w @
            Issued (POST url [(''content-type'', ''application/json'')] (post_body p)) # s"
  using post_effects[OF assms] by auto

lemma dispatch_after_poll:
  assumes g: "getNext eng api w = (Normal nxt, w1)"
  shows "\<exists>sfx. effects (snd (loop eng api h w))
                 = effects w1 @ Invoked (event nxt) (requestId nxt) # sfx
     \<and> (case h (event nxt) (buildContext (process_env w1) nxt) of
          Normal out \<Rightarrow>
            \<exists>s. sfx = Returned out #
                  Issued (POST (response_url api (requestId nxt))
                    [(''content-type'', ''application/json'')] (post_body out)) # s
        | Thrown e \<Rightarrow>
            \<exists>s. sfx = Threw e #
                  Issued (POST (error_url api (requestId nxt))
                    [(''content-type'', ''application/json'')]
                    (JSON_stringify (payload_value (toErrorPayload eng e)))) # s
        | Blocked \<Rightarrow> sfx = [])"
proof -
  let ?ctx = "buildContext (process_env w1) nxt"
  let ?rid = "requestId nxt"
  show ?thesis
  proof (cases "h (event nxt) ?ctx")
    case (Normal out)
    define wi where "wi = w1\<lparr>effects := effects w1 @ [Invoked (event nxt) ?rid, Returned out]\<rparr>"
    obtain c2 w2 where p: "post (response_url api ?rid) out wi = (c2, w2)"
      by (cases "post (response_url api ?rid) out wi")
    with Normal have t: "try_block api h nxt ?ctx w1 = (c2, w2)"
      by (simp add: try_block_def invoke_def respond_def wi_def)
    from post_issues[OF p] obtain s where
      s: "effects w2 = effects wi @ Issued (POST (response_url api ?rid)
             [(''content-type'', ''application/json'')] (post_body out)) # s" by blast
    from loop_after_try[OF g t] obtain s' where
      "effects (snd (loop eng api h w)) = effects w2 @ s'" by blast
    with s Normal show ?thesis by (simp add: wi_def)
  next
    case (Thrown e)
    define wi where "wi = w1\<lparr>effects := effects w1 @ [Invoked (event nxt) ?rid, Threw e]\<rparr>"
    from Thrown have t: "try_block api h nxt ?ctx w1 = (Thrown e, wi)"
      by (simp add: try_block_def invoke_def wi_def)
    obtain c3 w3 where r: "respondError eng api ?rid e wi = (c3, w3)"
      by (cases "respondError eng api ?rid e wi")
    then have "post (error_url api ?rid) (payload_value (toErrorPayload eng e)) wi = (c3, w3)"
      by (simp add: respondError_def)
    from post_issues[OF this] obtain s where
      s: "effects w3 = effects wi @ Issued (POST (error_url api ?rid)
             [(''content-type'', ''application/json'')]
             (JSON_stringify (payload_value (toErrorPayload eng e)))) # s"
      by (auto simp: post_body_payload)
    from loop_after_catch[OF g t r] obtain s' where
      "effects (snd (loop eng api h w)) = effects w3 @ s'" by blast
    with s Thrown show ?thesis by (simp add: wi_def)
  next
    case Blocked
    then have t: "try_block api h nxt ?ctx w1 = (Blocked, w1\<lparr>effects := effects w1 @ [Invoked (event nxt) ?rid]\<rparr>)"
      by (simp add: try_block_def invoke_def)
    with g have "loop eng api h w = (Pending, w1\<lparr>effects := effects w1 @ [Invoked (event nxt) ?rid]\<rparr>)"
      by (simp add: loop_try_Blocked)
    with Blocked show ?thesis by simp
  qed
qed

section \<open>Reports that fail\<close>

text \<open>
  Claim C2, as the code has it.  No report is retried.  When the handler returned and the
  POST to the response endpoint fails, the \<^verbatim>\<open>try\<close> block throws that failure to the
  \<^verbatim>\<open>catch\<close>.  When the \<^verbatim>\<open>try\<close> block ends normally the loop polls again.  When it throws
  (the handler threw, or the response POST failed), one POST of the error payload goes to
  the error endpoint: if that POST fails, \<open>start\<close> rejects with the failure and the loop
  ends there; if it completes, the loop polls again.
\<close>

theorem report_failure:
  assumes "truthy (RUNTIME_API (process_env w))"
    and "getNext eng (RUNTIME_API (process_env w)) w = (Normal nxt, w1)"
    and "try_block (RUNTIME_API (process_env w)) h nxt (buildContext (process_env w1) nxt) w1 = (c, w2)"
  shows "(\<forall>out t x rest.
            h (event nxt) (buildContext (process_env w1) nxt) = Normal out
            \<and> network w1 = (t, Rejects x) # rest \<longrightarrow>
            c = Thrown x
            \<and> w2 = w1\<lparr>clock := t, network := rest,
                  effects := effects w1 @
                    [Invoked (event nxt) (requestId nxt), Returned out,
                     Issued (POST (response_url (RUNTIME_API (process_env w)) (requestId nxt))
                       [(''content-type'', ''application/json'')] (post_body out)),
                     Settled (Rejects x)]\<rparr>)
       \<and> (c = Normal () \<longrightarrow> start eng h w = loop eng (RUNTIME_API (process_env w)) h w2)
       \<and> (\<forall>e t x rest. c = Thrown e \<and> network w2 = (t, Rejects x) # rest \<longrightarrow>
            start eng h w =
              (Rejected x,
               w2\<lparr>clock := t, network := rest,
                  effects := effects w2 @
                    [Issued (POST (error_url (RUNTIME_API (process_env w)) (requestId nxt))
                       [(''content-type'', ''application/json'')]
                       (JSON_stringify (payload_value (toErrorPayload eng e)))),
                     Settled (Rejects x)]\<rparr>))
       \<and> (\<forall>e t r rest. c = Thrown e \<and> network w2 = (t, Resolves r) # rest \<longrightarrow>
            start eng h w =
              loop eng (RUNTIME_API (process_env w)) h
               (w2\<lparr>clock := t, network := rest,
                  effects := effects w2 @
                    [Issued (POST (error_url (RUNTIME_API (process_env w)) (requestId nxt))
                       [(''content-type'', ''application/json'')]
                       (JSON_stringify (payload_value (toErrorPayload eng e)))),
                     Settled (Resolves r)]\<rparr>))"
proof -
  let ?api = "RUNTIME_API (process_env w)"
  have s: "start eng h w = loop eng ?api h w" using assms(1) by (rule start_loop)
  have pb: "post_body (payload_value p) = JSON_stringify (payload_value p)" for p
    by (simp add: post_body_def payload_value_def)
  have a: "start eng h w = loop eng ?api h w2" if "c = Normal ()"
    using that assms(2,3) s by (simp add: loop_try_Normal)
  have b: "start eng h w =
              (Rejected x,
               w2\<lparr>clock := t, network := rest,
                  effects := effects w2 @
                    [Issued (POST (error_url ?api (requestId nxt))
                       [(''content-type'', ''application/json'')]
                       (JSON_stringify (payload_value (toErrorPayload eng e)))),
                     Settled (Rejects x)]\<rparr>)"
    if "c = Thrown e" "network w2 = (t, Rejects x) # rest" for e t x rest
    using that assms(2,3) s
    by (simp add: loop_catch respondError_def post_Rejects pb)
  have c: "start eng h w =
              loop eng ?api h
               (w2\<lparr>clock := t, network := rest,
                  effects := effects w2 @
                    [Issued (POST (error_url ?api (requestId nxt))
                       [(''content-type'', ''application/json'')]
                       (JSON_stringify (payload_value (toErrorPayload eng e)))),
                     Settled (Resolves r)]\<rparr>)"
    if "c = Thrown e" "network w2 = (t, Resolves r) # rest" for e t r rest
    using that assms(2,3) s
    by (simp add: loop_catch respondError_def post_Resolves pb)
  have d: "c = Thrown x
            \<and> w2 = w1\<lparr>clock := t, network := rest,
                  effects := effects w1 @
                    [Invoked (event nxt) (requestId nxt), Returned out,
                     Issued (POST (response_url ?api (requestId nxt))
                       [(''content-type'', ''application/json'')] (post_body out)),
                     Settled (Rejects x)]\<rparr>"
    if "h (event nxt) (buildContext (process_env w1) nxt) = Normal out"
      "network w1 = (t, Rejects x) # rest" for out t x rest
    using that assms(3)
    by (simp add: try_block_def invoke_def respond_def post_Rejects)
  from a b c d show ?thesis by blast
qed


definition accepted :: response where
  "accepted = \<lparr> headers = [], res_json = Inr (JObj [(''status'', JStr ''OK'')]) \<rparr>"

definition no_id_response :: response where
  "no_id_response = \<lparr> headers = [], res_json = Inr JNull \<rparr>"

lemma post_body_simps:
  "post_body JUndefined = None"
  "post_body JNull = Some ''null''"
  "post_body (JStr s) = Some s"
  "post_body (JObj kvs) = JSON_stringify (JObj kvs)"
  "post_body (payload_value p) = JSON_stringify (payload_value p)"
  by (simp_all add: post_body_def payload_value_def)

lemmas sample_defs = echo_handler_def throwing_handler_def network_down_def accepted_def
  no_id_response_def sample_api_def next_url_def response_url_def error_url_def api_text_def
  id_text_def post_body_simps Number_show_int

definition first_invocation :: invocation where
  "first_invocation =
     \<lparr> requestId = Some ''1'', invokedArn = None, inv_deadlineMs = Finite 4000,
       inv_clientContext = JUndefined, inv_identity = JUndefined, event = JNull \<rparr>"

definition sample_polled :: "(int \<times> reply) list \<Rightarrow> world" where
  "sample_polled rest =
     \<lparr> process_env = [(''AWS_LAMBDA_RUNTIME_API'', ''127.0.0.1:9001'')],
       clock = 1000, network = rest,
       effects = [Issued (GET ''http://127.0.0.1:9001/2018-06-01/runtime/invocation/next''),
                  Settled (Resolves (sample_response ''1'' JNull))] \<rparr>"

lemma sample_poll:
  "getNext sample_engine sample_api (sample_world ((1000, Resolves (sample_response ''1'' JNull)) # rest))
   = (Normal first_invocation, sample_polled rest)"
  by (simp add: run_defs sample_defs first_invocation_def sample_polled_def)

text \<open>The handler returns; both the response POST and the error POST are refused.\<close>

theorem report_failure_witness:
  "start sample_engine echo_handler
      (sample_world [(1000, Resolves (sample_response ''1'' JNull)), (1010, Rejects network_down),
                     (1020, Rejects network_down), (2000, Resolves (sample_response ''2'' JNull))])
     = (Rejected network_down,
        \<lparr> process_env = [(''AWS_LAMBDA_RUNTIME_API'', ''127.0.0.1:9001'')],
          clock = 1020,
          network = [(2000, Resolves (sample_response ''2'' JNull))],
          effects =
            [Issued (GET ''http://127.0.0.1:9001/2018-06-01/runtime/invocation/next''),
             Settled (Resolves (sample_response ''1'' JNull)),
             Invoked JNull (Some ''1''), Returned JNull,
             Issued (POST ''http://127.0.0.1:9001/2018-06-01/runtime/invocation/1/response''
               [(''content-type'', ''application/json'')] (Some ''null'')),
             Settled (Rejects network_down),
             Issued (POST ''http://127.0.0.1:9001/2018-06-01/runtime/invocation/1/error''
               [(''content-type'', ''application/json'')]
               (JSON_stringify (payload_value (toErrorPayload sample_engine network_down)))),
             Settled (Rejects network_down)] \<rparr>)"
proof -
  let ?rest = "[(1010, Rejects network_down), (1020, Rejects network_down),
                (2000, Resolves (sample_response ''2'' JNull))]"
  let ?w = "sample_world ((1000, Resolves (sample_response ''1'' JNull)) # ?rest)"
  let ?w2 = "(sample_polled ?rest)\<lparr>clock := 1010,
      network := [(1020, Rejects network_down), (2000, Resolves (sample_response ''2'' JNull))],
      effects := effects (sample_polled ?rest) @
        [Invoked JNull (Some ''1''), Returned JNull,
         Issued (POST (response_url sample_api (Some ''1''))
           [(''content-type'', ''application/json'')] (Some ''null'')),
         Settled (Rejects network_down)]\<rparr>"
  have h1: "truthy (RUNTIME_API (process_env ?w))" by (simp add: sample_api_def)
  have h2: "getNext sample_engine (RUNTIME_API (process_env ?w)) ?w
              = (Normal first_invocation, sample_polled ?rest)"
    by (simp add: sample_poll)
  have h3: "try_block (RUNTIME_API (process_env ?w)) echo_handler first_invocation
              (buildContext (process_env (sample_polled ?rest)) first_invocation)
              (sample_polled ?rest) = (Thrown network_down, ?w2)"
    by (simp add: try_block_def invoke_def respond_def post_Rejects sample_polled_def
        first_invocation_def echo_handler_def post_body_simps)
  have h4: "network ?w2 = (1020, Rejects network_down) # [(2000, Resolves (sample_response ''2'' JNull))]"
    by simp
  from report_failure [OF h1 h2 h3] h4
  have "start sample_engine echo_handler ?w =
      (Rejected network_down,
       ?w2\<lparr>clock := 1020, network := [(2000, Resolves (sample_response ''2'' JNull))],
          effects := effects ?w2 @
            [Issued (POST (error_url (RUNTIME_API (process_env ?w)) (requestId first_invocation))
               [(''content-type'', ''application/json'')]
               (JSON_stringify (payload_value (toErrorPayload sample_engine network_down)))),
             Settled (Rejects network_down)]\<rparr>)"
    by blast
  then show ?thesis
    by (simp add: sample_polled_def first_invocation_def sample_api_def response_url_def
        error_url_def api_text_def id_text_def)
qed

text \<open>
  Against claim C2 as stated: the handler throws, the POST to the error endpoint is
  refused, and \<open>start\<close> rejects; the loop has polled once and the invocation that was
  waiting is never fetched.
\<close>

theorem report_failure_counterexample:
  "fst (start sample_engine throwing_handler
     (sample_world [(1000, Resolves (sample_response ''1'' JNull)), (1010, Rejects network_down),
                    (2000, Resolves (sample_response ''2'' JNull))]))
     = Rejected network_down
   \<and> network (snd (start sample_engine throwing_handler
     (sample_world [(1000, Resolves (sample_response ''1'' JNull)), (1010, Rejects network_down),
                    (2000, Resolves (sample_response ''2'' JNull))])))
     = [(2000, Resolves (sample_response ''2'' JNull))]
   \<and> filter is_poll (effects (snd (start sample_engine throwing_handler
     (sample_world [(1000, Resolves (sample_response ''1'' JNull)), (1010, Rejects network_down),
                    (2000, Resolves (sample_response ''2'' JNull))]))))
     = [Issued (GET ''http://127.0.0.1:9001/2018-06-01/runtime/invocation/next'')]"
  by (simp add: run_defs sample_defs)

lemma getNext_ok:
  assumes "network w = (t, Resolves res) # rest"
    and "res_json res = Inr ev"
    and "parse_header eng (headers_get res ''Lambda-Runtime-Client-Context'') = Inr ccv"
    and "parse_header eng (headers_get res ''Lambda-Runtime-Cognito-Identity'') = Inr idv"
  shows "getNext eng api w =
     (Normal \<lparr> requestId = headers_get res ''Lambda-Runtime-Aws-Request-Id'',
               invokedArn = headers_get res ''Lambda-Runtime-Invoked-Function-Arn'',
               inv_deadlineMs = Number_js
                 (case headers_get res ''Lambda-Runtime-Deadline-Ms'' of
                    Some s \<Rightarrow> s | None \<Rightarrow> show_int (t + 3000)),
               inv_clientContext = ccv, inv_identity = idv, event = ev \<rparr>,
      publish_trace (headers_get res ''Lambda-Runtime-Trace-Id'')
        (w\<lparr>clock := t, network := rest,
           effects := effects w @ [Issued (GET (next_url api)), Settled (Resolves res)]\<rparr>))"
  using assms by (simp add: getNext_def fetch_def Let_def split: option.splits)

section \<open>A poll response without a request id\<close>

text \<open>
  Claim C7, as the code has it.  \<^verbatim>\<open>headers.get("Lambda-Runtime-Aws-Request-Id")!\<close> gives
  \<^verbatim>\<open>null\<close> when the header is missing and the non-null assertion checks nothing: when the
  body and the other headers are well formed the poll step returns with a \<^verbatim>\<open>null\<close> request
  id, the handler is called with \<open>awsRequestId\<close> \<^verbatim>\<open>null\<close>, and the report is posted to the
  path \<^verbatim>\<open>/invocation/null/response\<close>, or \<^verbatim>\<open>/invocation/null/error\<close> when the handler threw.
\<close>

theorem missing_request_id:
  assumes "truthy (RUNTIME_API (process_env w))"
    and "network w = (t, Resolves res) # rest"
    and "headers_get res ''Lambda-Runtime-Aws-Request-Id'' = None"
    and "res_json res = Inr ev"
    and "parse_header eng (headers_get res ''Lambda-Runtime-Client-Context'') = Inr ccv"
    and "parse_header eng (headers_get res ''Lambda-Runtime-Cognito-Identity'') = Inr idv"
  shows "\<exists>nxt w1. getNext eng (RUNTIME_API (process_env w)) w = (Normal nxt, w1)
       \<and> requestId nxt = None \<and> event nxt = ev
       \<and> awsRequestId (buildContext (process_env w1) nxt) = None
       \<and> (\<exists>sfx. effects (snd (start eng h w))
                   = effects w @ [Issued (GET (next_url (RUNTIME_API (process_env w)))),
                                  Settled (Resolves res), Invoked ev None] @ sfx
            \<and> (case h ev (buildContext (process_env w1) nxt) of
                 Normal out \<Rightarrow>
                   \<exists>s. sfx = Returned out #
                     Issued (POST (''http://'' @ api_text (RUNTIME_API (process_env w))
                                   @ ''/2018-06-01/runtime/invocation/null/response'')
                       [(''content-type'', ''application/json'')] (post_body out)) # s
               | Thrown e \<Rightarrow>
                   \<exists>s. sfx = Threw e #
                     Issued (POST (''http://'' @ api_text (RUNTIME_API (process_env w))
                                   @ ''/2018-06-01/runtime/invocation/null/error'')
                       [(''content-type'', ''application/json'')]
                       (JSON_stringify (payload_value (toErrorPayload eng e)))) # s
               | Blocked \<Rightarrow> sfx = []))"
proof -
  let ?api = "RUNTIME_API (process_env w)"
  define nxt where "nxt = \<lparr> requestId = headers_get res ''Lambda-Runtime-Aws-Request-Id'',
               invokedArn = headers_get res ''Lambda-Runtime-Invoked-Function-Arn'',
               inv_deadlineMs = Number_js
                 (case headers_get res ''Lambda-Runtime-Deadline-Ms'' of
                    Some s \<Rightarrow> s | None \<Rightarrow> show_int (t + 3000)),
               inv_clientContext = ccv, inv_identity = idv, event = ev \<rparr>"
  define w1 where "w1 = publish_trace (headers_get res ''Lambda-Runtime-Trace-Id'')
        (w\<lparr>clock := t, network := rest,
           effects := effects w @ [Issued (GET (next_url ?api)), Settled (Resolves res)]\<rparr>)"
  have g: "getNext eng ?api w = (Normal nxt, w1)"
    unfolding nxt_def w1_def using assms(2,4,5,6) by (rule getNext_ok)
  have rid: "requestId nxt = None" and ev: "event nxt = ev"
    using assms(3) by (simp_all add: nxt_def)
  have e1: "effects w1 = effects w @ [Issued (GET (next_url ?api)), Settled (Resolves res)]"
    by (simp add: w1_def)
  from dispatch_after_poll[OF g, of h] obtain sfx where
    sfx: "effects (snd (loop eng ?api h w)) = effects w1 @ Invoked (event nxt) (requestId nxt) # sfx"
    and c: "case h (event nxt) (buildContext (process_env w1) nxt) of
          Normal out \<Rightarrow>
            \<exists>s. sfx = Returned out #
                  Issued (POST (response_url ?api (requestId nxt))
                    [(''content-type'', ''application/json'')] (post_body out)) # s
        | Thrown e \<Rightarrow>
            \<exists>s. sfx = Threw e #
                  Issued (POST (error_url ?api (requestId nxt))
                    [(''content-type'', ''application/json'')]
                    (JSON_stringify (payload_value (toErrorPayload eng e)))) # s
        | Blocked \<Rightarrow> sfx = []"
    by blast
  have "effects (snd (start eng h w))
          = effects w @ [Issued (GET (next_url ?api)), Settled (Resolves res), Invoked ev None] @ sfx"
    using sfx e1 rid ev assms(1) by (simp add: start_loop)
  moreover have "case h ev (buildContext (process_env w1) nxt) of
                 Normal out \<Rightarrow>
                   \<exists>s. sfx = Returned out #
                     Issued (POST (''http://'' @ api_text ?api
                                   @ ''/2018-06-01/runtime/invocation/null/response'')
                       [(''content-type'', ''application/json'')] (post_body out)) # s
               | Thrown e \<Rightarrow>
                   \<exists>s. sfx = Threw e #
                     Issued (POST (''http://'' @ api_text ?api
                                   @ ''/2018-06-01/runtime/invocation/null/error'')
                       [(''content-type'', ''application/json'')]
                       (JSON_stringify (payload_value (toErrorPayload eng e)))) # s
               | Blocked \<Rightarrow> sfx = []"
    using c rid ev by (cases "h ev (buildContext (process_env w1) nxt)")
      (simp_all add: response_url_def error_url_def id_text_def)
  ultimately show ?thesis using g rid ev by auto
qed


text \<open>A reply with a JSON body and no request-id header, then the reply to the report.\<close>

theorem missing_request_id_witness:
  "effects (snd (start sample_engine echo_handler
      (sample_world [(1000, Resolves no_id_response), (1010, Resolves accepted)])))
   = [Issued (GET ''http://127.0.0.1:9001/2018-06-01/runtime/invocation/next''),
      Settled (Resolves no_id_response),
      Invoked JNull None, Returned JNull,
      Issued (POST ''http://127.0.0.1:9001/2018-06-01/runtime/invocation/null/response''
        [(''content-type'', ''application/json'')] (Some ''null'')),
      Settled (Resolves accepted),
      Issued (GET ''http://127.0.0.1:9001/2018-06-01/runtime/invocation/next'')]"
proof -
  let ?w = "sample_world [(1000, Resolves no_id_response), (1010, Resolves accepted)]"
  have h1: "truthy (RUNTIME_API (process_env ?w))" by (simp add: sample_api_def)
  have h2: "network ?w = (1000, Resolves no_id_response) # [(1010, Resolves accepted)]"
    by (simp add: sample_world_def)
  have h3: "headers_get no_id_response ''Lambda-Runtime-Aws-Request-Id'' = None"
    by (simp add: headers_get_def no_id_response_def)
  have h4: "res_json no_id_response = Inr JNull" by (simp add: no_id_response_def)
  have h5: "parse_header sample_engine (headers_get no_id_response ''Lambda-Runtime-Client-Context'')
              = Inr JUndefined"
    by (simp add: headers_get_def no_id_response_def parse_header_def)
  have h6: "parse_header sample_engine (headers_get no_id_response ''Lambda-Runtime-Cognito-Identity'')
              = Inr JUndefined"
    by (simp add: headers_get_def no_id_response_def parse_header_def)
  from missing_request_id [OF h1 h2 h3 h4 h5 h6, of echo_handler]
  obtain sfx where "effects (snd (start sample_engine echo_handler ?w))
       = effects ?w @ [Issued (GET (next_url (RUNTIME_API (process_env ?w)))),
                       Settled (Resolves no_id_response), Invoked JNull None] @ sfx"
    by blast
  moreover have "effects (snd (start sample_engine echo_handler ?w))
       = [Issued (GET ''http://127.0.0.1:9001/2018-06-01/runtime/invocation/next''),
      Settled (Resolves no_id_response),
      Invoked JNull None, Returned JNull,
      Issued (POST ''http://127.0.0.1:9001/2018-06-01/runtime/invocation/null/response''
        [(''content-type'', ''application/json'')] (Some ''null'')),
      Settled (Resolves accepted),
      Issued (GET ''http://127.0.0.1:9001/2018-06-01/runtime/invocation/next'')]"
    by (simp add: run_defs sample_defs)
  ultimately show ?thesis by simp
qed

fun is_dispatch :: "effect \<Rightarrow> bool" where
  "is_dispatch (Invoked ev rid) = True"
| "is_dispatch _ = False"

text \<open>
  Against claim C7 as stated: on that reply the poll step returns normally with a \<^verbatim>\<open>null\<close>
  request id, the handler is dispatched once, and one report is posted.
\<close>

theorem missing_request_id_counterexample:
  "fst (getNext sample_engine sample_api
      (sample_world [(1000, Resolves no_id_response), (1010, Resolves accepted)]))
   = Normal \<lparr> requestId = None, invokedArn = None, inv_deadlineMs = Finite 4000,
              inv_clientContext = JUndefined, inv_identity = JUndefined, event = JNull \<rparr>
   \<and> filter is_dispatch (effects (snd (start sample_engine echo_handler
      (sample_world [(1000, Resolves no_id_response), (1010, Resolves accepted)]))))
     = [Invoked JNull None]
   \<and> filter is_POST (effects (snd (start sample_engine echo_handler
      (sample_world [(1000, Resolves no_id_response), (1010, Resolves accepted)]))))
     = [Issued (POST ''http://127.0.0.1:9001/2018-06-01/runtime/invocation/null/response''
          [(''content-type'', ''application/json'')] (Some ''null''))]"
  by (simp add: run_defs sample_defs)

section \<open>A response POST that fails\<close>

text \<open>
  Claim C10, as the code has it.  When the handler returned \<open>out\<close> and the POST to the
  response endpoint is refused with \<open>x\<close>, the failure is caught and one POST goes to the
  error endpoint of the same request id with the error payload of \<open>x\<close> as its body.  If
  that POST is refused too, \<open>start\<close> rejects with its failure and polls no more; if it
  completes, the loop goes on and its next effect is the poll request.
\<close>

theorem response_delivery_failure:
  assumes "truthy (RUNTIME_API (process_env w))"
    and "getNext eng (RUNTIME_API (process_env w)) w = (Normal nxt, w1)"
    and "h (event nxt) (buildContext (process_env w1) nxt) = Normal out"
    and "network w1 = (t2, Rejects x) # (t3, r3) # rest"
    and "w3 = w1\<lparr>clock := t3, network := rest,
            effects := effects w1 @
              [Invoked (event nxt) (requestId nxt), Returned out,
               Issued (POST (response_url (RUNTIME_API (process_env w)) (requestId nxt))
                 [(''content-type'', ''application/json'')] (post_body out)),
               Settled (Rejects x),
               Issued (POST (error_url (RUNTIME_API (process_env w)) (requestId nxt))
                 [(''content-type'', ''application/json'')]
                 (JSON_stringify (payload_value (toErrorPayload eng x)))),
               Settled r3]\<rparr>"
  shows "(\<forall>y. r3 = Rejects y \<longrightarrow> start eng h w = (Rejected y, w3))
       \<and> (\<forall>r. r3 = Resolves r \<longrightarrow>
            start eng h w = loop eng (RUNTIME_API (process_env w)) h w3
            \<and> (\<exists>sfx. effects (snd (start eng h w))
                  = effects w3 @ Issued (GET (next_url (RUNTIME_API (process_env w)))) # sfx))"
proof -
  let ?api = "RUNTIME_API (process_env w)"
  let ?ctx = "buildContext (process_env w1) nxt"
  define w2 where "w2 = w1\<lparr>clock := t2, network := (t3, r3) # rest,
            effects := effects w1 @
              [Invoked (event nxt) (requestId nxt), Returned out,
               Issued (POST (response_url ?api (requestId nxt))
                 [(''content-type'', ''application/json'')] (post_body out)),
               Settled (Rejects x)]\<rparr>"
  have s: "start eng h w = loop eng ?api h w" using assms(1) by (rule start_loop)
  have t: "try_block ?api h nxt ?ctx w1 = (Thrown x, w2)"
    using assms(3,4) by (simp add: try_block_def invoke_def respond_def post_Rejects w2_def)
  have l: "loop eng ?api h w =
     (case respondError eng ?api (requestId nxt) x w2 of
        (Blocked, w3) \<Rightarrow> (Pending, w3)
      | (Thrown e', w3) \<Rightarrow> (Rejected e', w3)
      | (Normal u, w3) \<Rightarrow> loop eng ?api h w3)"
    using assms(2) t by (rule loop_catch)
  have a: "start eng h w = (Rejected y, w3)" if "r3 = Rejects y" for y
    using that s l assms(5)
    by (simp add: respondError_def post_Rejects post_body_payload w2_def)
  have b: "start eng h w = loop eng ?api h w3" if "r3 = Resolves r" for r
    using that s l assms(5)
    by (simp add: respondError_def post_Resolves post_body_payload w2_def)
  have c: "\<exists>sfx. effects (snd (start eng h w)) = effects w3 @ Issued (GET (next_url ?api)) # sfx"
    if "r3 = Resolves r" for r
    using b[OF that] loop_starts_with_poll[of eng ?api h w3] by simp
  from a b c show ?thesis by blast
qed

text \<open>The response POST is refused, the error POST is accepted, the next poll is issued.\<close>

theorem response_delivery_failure_witness:
  "effects (snd (start sample_engine echo_handler
      (sample_world [(1000, Resolves (sample_response ''1'' JNull)), (1010, Rejects network_down),
                     (1020, Resolves accepted)])))
   = [Issued (GET ''http://127.0.0.1:9001/2018-06-01/runtime/invocation/next''),
      Settled (Resolves (sample_response ''1'' JNull)),
      Invoked JNull (Some ''1''), Returned JNull,
      Issued (POST ''http://127.0.0.1:9001/2018-06-01/runtime/invocation/1/response''
        [(''content-type'', ''application/json'')] (Some ''null'')),
      Settled (Rejects network_down),
      Issued (POST ''http://127.0.0.1:9001/2018-06-01/runtime/invocation/1/error''
        [(''content-type'', ''application/json'')]
        (JSON_stringify (payload_value (toErrorPayload sample_engine network_down)))),
      Settled (Resolves accepted),
      Issued (GET ''http://127.0.0.1:9001/2018-06-01/runtime/invocation/next'')]"
proof -
  let ?rest = "[(1010, Rejects network_down), (1020, Resolves accepted)]"
  let ?w = "sample_world ((1000, Resolves (sample_response ''1'' JNull)) # ?rest)"
  let ?api = "RUNTIME_API (process_env ?w)"
  define w3 where "w3 = (sample_polled ?rest)\<lparr>clock := 1020, network := [],
            effects := effects (sample_polled ?rest) @
              [Invoked (event first_invocation) (requestId first_invocation), Returned JNull,
               Issued (POST (response_url ?api (requestId first_invocation))
                 [(''content-type'', ''application/json'')] (post_body JNull)),
               Settled (Rejects network_down),
               Issued (POST (error_url ?api (requestId first_invocation))
                 [(''content-type'', ''application/json'')]
                 (JSON_stringify (payload_value (toErrorPayload sample_engine network_down)))),
               Settled (Resolves accepted)]\<rparr>"
  have h1: "truthy ?api" by (simp add: sample_api_def)
  have h2: "getNext sample_engine ?api ?w = (Normal first_invocation, sample_polled ?rest)"
    by (simp add: sample_poll)
  have h3: "echo_handler (event first_invocation)
              (buildContext (process_env (sample_polled ?rest)) first_invocation) = Normal JNull"
    by (simp add: echo_handler_def first_invocation_def)
  have h4: "network (sample_polled ?rest) = (1010, Rejects network_down) # (1020, Resolves accepted) # []"
    by (simp add: sample_polled_def)
  from response_delivery_failure [where h = echo_handler, OF h1 h2 h3 h4 w3_def]
  have "start sample_engine echo_handler ?w = loop sample_engine ?api echo_handler w3"
    by blast
  moreover have "loop sample_engine ?api echo_handler w3 =
      (Pending, w3\<lparr>effects := effects w3 @ [Issued (GET (next_url ?api))]\<rparr>)"
    by (rule loop_poll_Blocked) (simp add: getNext_def fetch_def w3_def)
  ultimately show ?thesis
    by (simp add: w3_def sample_polled_def first_invocation_def sample_defs)
qed

text \<open>
  Against claim C10 as stated: when the error POST is refused as well, \<open>start\<close> rejects;
  one poll was issued and the invocation that was waiting is never fetched.
\<close>

theorem response_delivery_failure_counterexample:
  "fst (start sample_engine echo_handler
     (sample_world [(1000, Resolves (sample_response ''1'' JNull)), (1010, Rejects network_down),
                    (1020, Rejects network_down), (2000, Resolves (sample_response ''2'' JNull))]))
     = Rejected network_down
   \<and> filter is_poll (effects (snd (start sample_engine echo_handler
     (sample_world [(1000, Resolves (sample_response ''1'' JNull)), (1010, Rejects network_down),
                    (1020, Rejects network_down), (2000, Resolves (sample_response ''2'' JNull))]))))
     = [Issued (GET ''http://127.0.0.1:9001/2018-06-01/runtime/invocation/next'')]
   \<and> network (snd (start sample_engine echo_handler
     (sample_world [(1000, Resolves (sample_response ''1'' JNull)), (1010, Rejects network_down),
                    (1020, Rejects network_down), (2000, Resolves (sample_response ''2'' JNull))])))
     = [(2000, Resolves (sample_response ''2'' JNull))]"
  by (simp add: run_defs sample_defs)

section \<open>Two invocations in a row\<close>

text \<open>
  The scenario of two queued invocations with a handler that doubles \<^verbatim>\<open>x\<close>: the effects
  of the run, in order, and their reading by \<open>observe\<close>.
\<close>

lemma digit_char_simps:
  "digit_char 0 = CHR ''0''" "digit_char 1 = CHR ''1''" "digit_char 2 = CHR ''2''"
  "digit_char 3 = CHR ''3''" "digit_char 4 = CHR ''4''" "digit_char 5 = CHR ''5''"
  "digit_char 6 = CHR ''6''" "digit_char 7 = CHR ''7''" "digit_char 8 = CHR ''8''"
  "digit_char 9 = CHR ''9''"
  by code_simp+

definition doubling_handler :: handler where
  "doubling_handler ev ctx =
     (case ev of
        JObj kvs \<Rightarrow>
          (case map_of kvs ''x'' of
             Some (JNum x) \<Rightarrow> Normal (JObj [(''doubled'', JNum (x * 2))])
           | _ \<Rightarrow> Thrown (JStr ''x is not a number''))
      | _ \<Rightarrow> Thrown (JStr ''not an object''))"

theorem one_at_a_time_witness:
  "effects (snd (start sample_engine doubling_handler
      (sample_world [(1000, Resolves (sample_response ''1'' (JObj [(''x'', JNum 1)]))),
                     (1010, Resolves accepted),
                     (2000, Resolves (sample_response ''2'' (JObj [(''x'', JNum 2)]))),
                     (2010, Resolves accepted)])))
   = [Issued (GET ''http://127.0.0.1:9001/2018-06-01/runtime/invocation/next''),
      Settled (Resolves (sample_response ''1'' (JObj [(''x'', JNum 1)]))),
      Invoked (JObj [(''x'', JNum 1)]) (Some ''1''), Returned (JObj [(''doubled'', JNum 2)]),
      Issued (POST ''http://127.0.0.1:9001/2018-06-01/runtime/invocation/1/response''
        [(''content-type'', ''application/json'')]
        (Some (''{'' @ [CHR 0x22] @ ''doubled'' @ [CHR 0x22] @ '':2}''))),
      Settled (Resolves accepted),
      Issued (GET ''http://127.0.0.1:9001/2018-06-01/runtime/invocation/next''),
      Settled (Resolves (sample_response ''2'' (JObj [(''x'', JNum 2)]))),
      Invoked (JObj [(''x'', JNum 2)]) (Some ''2''), Returned (JObj [(''doubled'', JNum 4)]),
      Issued (POST ''http://127.0.0.1:9001/2018-06-01/runtime/invocation/2/response''
        [(''content-type'', ''application/json'')]
        (Some (''{'' @ [CHR 0x22] @ ''doubled'' @ [CHR 0x22] @ '':4}''))),
      Settled (Resolves accepted),
      Issued (GET ''http://127.0.0.1:9001/2018-06-01/runtime/invocation/next'')]
   \<and> observe sample_api NoInvocation
        (effects (snd (start sample_engine doubling_handler
          (sample_world [(1000, Resolves (sample_response ''1'' (JObj [(''x'', JNum 1)]))),
                     (1010, Resolves accepted),
                     (2000, Resolves (sample_response ''2'' (JObj [(''x'', JNum 2)]))),
                     (2010, Resolves accepted)]))))
     = Some Awaiting"
  using one_at_a_time [of sample_engine doubling_handler
      "sample_world [(1000, Resolves (sample_response ''1'' (JObj [(''x'', JNum 1)]))),
                     (1010, Resolves accepted),
                     (2000, Resolves (sample_response ''2'' (JObj [(''x'', JNum 2)]))),
                     (2010, Resolves accepted)]"]
  by (simp add: run_defs sample_defs doubling_handler_def is_report_url_def
      quote_def quote_char_def join_def show_int_def show_nat.simps digit_char_simps)

section \<open>What \<open>JSON_stringify\<close> writes, \<open>JSON_parse\<close> reads back\<close>

subsection \<open>Strings and numbers\<close>


















subsection \<open>JSON values\<close>


















subsection \<open>Arrays and objects\<close>



















subsection \<open>The round trip\<close>



section \<open>The report of a result\<close>








end
